theory Spec2Isabelle
  imports Main "HOL-Library.Multiset"
begin

section \<open>Provider data\<close>

text \<open>
  A pagination cursor is a string, or absent (\<open>null\<close>, \<open>undefined\<close>). JavaScript's
  \<open>!cursor\<close> holds for an absent cursor and for the empty string.
\<close>

type_synonym marker = "string option"

definition falsy :: "marker \<Rightarrow> bool" where
  "falsy m = (case m of None \<Rightarrow> True | Some s \<Rightarrow> s = [])"

text \<open>An error of the SDK: the fields \<open>code\<close> and \<open>message\<close> the program reads.\<close>

datatype aws_error = AWSError (code: string) (message: string)

text \<open>
  A resource record is the bag of attributes the provider returns. The fields are the
  ones the program reads, under the names it reads them by (\<open>id\<close> and \<open>Id\<close> carry a
  prime); a kind's code reads only that kind's fields. The timestamp fields hold
  \<open>new Date(field).getTime()\<close>, in milliseconds.
\<close>

record resource =
  FunctionName :: string
  LastModified :: int
  logGroupName :: string
  creationTime :: int
  id' :: string
  name :: string
  createdDate :: int
  Name :: string
  CreationDate :: int
  Id' :: string
  DomainName :: string
  LastModifiedTime :: int
  RoleName :: string
  CreateDate :: int

record S3Object =
  Key :: string

record AttachedPolicy =
  PolicyName :: string
  PolicyArn :: string

record DistributionConfig =
  Enabled :: bool
  Comment :: string

section \<open>Provider calls, progress notifications and traces\<close>

text \<open>The parameters of every SDK call the program issues.\<close>

datatype request =
    ListFunctions marker nat
  | DescribeLogGroups string nat marker
  | GetRestApis marker nat
  | ListBuckets
  | ListDistributions marker string
  | ListRoles marker nat
  | DeleteFunction string
  | ListObjects string marker
  | DeleteObjects string "string list"
  | DeleteBucket string
  | DeleteRestApi string
  | ListRolePolicies string
  | DeleteRolePolicy string string
  | ListAttachedRolePolicies string
  | DetachRolePolicy string string
  | DeleteRole string
  | GetDistributionConfig string
  | UpdateDistribution string DistributionConfig string
  | DeleteDistribution string string
  | DeleteLogGroup string

text \<open>What a task tells its observer: \<open>next\<close>, \<open>complete\<close>, \<open>error\<close>.\<close>

datatype notification = Next string | Complete | Error string

text \<open>
  A trace records, in order, every provider call issued, every notification sent to the
  observer and every back-off delay waited (in milliseconds).
\<close>

datatype event = Call request | Observer notification | SetTimeout nat

type_synonym trace = "event list"

text \<open>
  The SDK clients are module-level constants of the program; here each is a record of
  its methods and a parameter of the functions that use it. A method answers a request
  given everything that happened before it, so the provider may be any deterministic
  environment. A rejected promise is \<open>Inl\<close> of the error.
\<close>

record Lambda =
  listFunctions :: "trace \<Rightarrow> request \<Rightarrow> aws_error + (resource list \<times> marker)"
  deleteFunction :: "trace \<Rightarrow> request \<Rightarrow> aws_error + unit"

record CloudWatchLogs =
  describeLogGroups :: "trace \<Rightarrow> request \<Rightarrow> aws_error + (resource list \<times> marker)"
  deleteLogGroup :: "trace \<Rightarrow> request \<Rightarrow> aws_error + unit"

record ApiGateway =
  getRestApis :: "trace \<Rightarrow> request \<Rightarrow> aws_error + (resource list \<times> marker)"
  deleteRestApi :: "trace \<Rightarrow> request \<Rightarrow> aws_error + unit"

record CloudFront =
  listDistributions :: "trace \<Rightarrow> request \<Rightarrow> aws_error + (bool \<times> resource list \<times> marker)"
  getDistributionConfig :: "trace \<Rightarrow> request \<Rightarrow> aws_error + (string \<times> DistributionConfig)"
  updateDistribution :: "trace \<Rightarrow> request \<Rightarrow> aws_error + unit"
  deleteDistribution :: "trace \<Rightarrow> request \<Rightarrow> aws_error + unit"

record IAM =
  listRoles :: "trace \<Rightarrow> request \<Rightarrow> aws_error + (marker \<times> bool \<times> resource list)"
  listRolePolicies :: "trace \<Rightarrow> request \<Rightarrow> aws_error + string list"
  deleteRolePolicy :: "trace \<Rightarrow> request \<Rightarrow> aws_error + unit"
  listAttachedRolePolicies :: "trace \<Rightarrow> request \<Rightarrow> aws_error + AttachedPolicy list"
  detachRolePolicy :: "trace \<Rightarrow> request \<Rightarrow> aws_error + unit"
  deleteRole :: "trace \<Rightarrow> request \<Rightarrow> aws_error + unit"

record S3 =
  listBuckets :: "trace \<Rightarrow> request \<Rightarrow> aws_error + resource list"
  listObjects :: "trace \<Rightarrow> request \<Rightarrow> aws_error + (S3Object list \<times> bool)"
  deleteObjects :: "trace \<Rightarrow> request \<Rightarrow> aws_error + unit"
  deleteBucket :: "trace \<Rightarrow> request \<Rightarrow> aws_error + unit"

text \<open>\<open>client.method(params).promise()\<close>, awaited: the call is recorded and answered.\<close>

definition promise :: "(trace \<Rightarrow> request \<Rightarrow> 'r) \<Rightarrow> request \<Rightarrow> trace \<Rightarrow> 'r \<times> trace" where
  "promise method req t = (method t req, t @ [Call req])"

text \<open>\<open>observer.next(message)\<close>, \<open>observer.complete()\<close>, \<open>observer.error(message)\<close>.\<close>

definition observer :: "notification \<Rightarrow> trace \<Rightarrow> trace" where
  "observer n t = t @ [Observer n]"

section \<open>The listers\<close>

text \<open>
  \<open>xs.sort((a, b) => time(b) - time(a))\<close>: a stable sort, newest first.
\<close>

definition sortDesc :: "('a \<Rightarrow> int) \<Rightarrow> 'a list \<Rightarrow> 'a list" where
  "sortDesc getTime xs = sort_key (\<lambda>a. - getTime a) xs"

text \<open>\<open>s.startsWith(searchString)\<close>\<close>

definition startsWith :: "string \<Rightarrow> string \<Rightarrow> bool" where
  "startsWith s searchString = (take (length searchString) s = searchString)"

text \<open>
  Each \<open>while (true)\<close> loop may run forever, so it is a partial function: \<open>None\<close> is a
  loop that never returns. The result of a lister is the rejected promise's error or the
  list it returns, with the trace of the calls made.
\<close>

partial_function (option) getAllFunctions_loop ::
  "Lambda \<Rightarrow> marker \<Rightarrow> resource list \<Rightarrow> trace \<Rightarrow> ((aws_error + resource list) \<times> trace) option" where
  "getAllFunctions_loop lambda Marker functions t =
     (case promise (listFunctions lambda) (ListFunctions Marker 10) t of
        (Inl error, t') \<Rightarrow> Some (Inl error, t')
      | (Inr (Functions, NextMarker), t') \<Rightarrow>
          (let functions = functions @ Functions in
           if falsy NextMarker then Some (Inr functions, t')
           else getAllFunctions_loop lambda NextMarker functions t'))"

definition getAllFunctions ::
  "Lambda \<Rightarrow> trace \<Rightarrow> ((aws_error + resource list) \<times> trace) option" where
  "getAllFunctions lambda t =
     (case getAllFunctions_loop lambda None [] t of
        None \<Rightarrow> None
      | Some (Inl error, t') \<Rightarrow> Some (Inl error, t')
      | Some (Inr functions, t') \<Rightarrow> Some (Inr (sortDesc LastModified functions), t'))"

partial_function (option) getAllLogGroups_loop ::
  "CloudWatchLogs \<Rightarrow> marker \<Rightarrow> resource list \<Rightarrow> trace \<Rightarrow> ((aws_error + resource list) \<times> trace) option" where
  "getAllLogGroups_loop cloudWatchLogs Marker groups t =
     (case promise (describeLogGroups cloudWatchLogs) (DescribeLogGroups ''/aws/'' 50 Marker) t of
        (Inl error, t') \<Rightarrow> Some (Inl error, t')
      | (Inr (logGroups, nextToken), t') \<Rightarrow>
          (let groups = groups @ logGroups in
           if falsy nextToken then Some (Inr groups, t')
           else getAllLogGroups_loop cloudWatchLogs nextToken groups t'))"

definition getAllLogGroups ::
  "CloudWatchLogs \<Rightarrow> trace \<Rightarrow> ((aws_error + resource list) \<times> trace) option" where
  "getAllLogGroups cloudWatchLogs t =
     (case getAllLogGroups_loop cloudWatchLogs None [] t of
        None \<Rightarrow> None
      | Some (Inl error, t') \<Rightarrow> Some (Inl error, t')
      | Some (Inr groups, t') \<Rightarrow> Some (Inr (sortDesc creationTime groups), t'))"

partial_function (option) getAllApiGateways_loop ::
  "ApiGateway \<Rightarrow> marker \<Rightarrow> resource list \<Rightarrow> trace \<Rightarrow> ((aws_error + resource list) \<times> trace) option" where
  "getAllApiGateways_loop apiGateway Marker gateways t =
     (case promise (getRestApis apiGateway) (GetRestApis Marker 10) t of
        (Inl error, t') \<Rightarrow> Some (Inl error, t')
      | (Inr (items, position), t') \<Rightarrow>
          (let gateways = gateways @ items in
           if falsy position then Some (Inr gateways, t')
           else getAllApiGateways_loop apiGateway position gateways t'))"

definition getAllApiGateways ::
  "ApiGateway \<Rightarrow> trace \<Rightarrow> ((aws_error + resource list) \<times> trace) option" where
  "getAllApiGateways apiGateway t =
     (case getAllApiGateways_loop apiGateway None [] t of
        None \<Rightarrow> None
      | Some (Inl error, t') \<Rightarrow> Some (Inl error, t')
      | Some (Inr gateways, t') \<Rightarrow> Some (Inr (sortDesc createdDate gateways), t'))"

text \<open>\<open>getAllBuckets\<close> issues one call and has no loop.\<close>

definition getAllBuckets :: "S3 \<Rightarrow> trace \<Rightarrow> (aws_error + resource list) \<times> trace" where
  "getAllBuckets s3 t =
     (case promise (listBuckets s3) ListBuckets t of
        (Inl error, t') \<Rightarrow> (Inl error, t')
      | (Inr Buckets, t') \<Rightarrow> (Inr (sortDesc CreationDate Buckets), t'))"

partial_function (option) getAllCloudFrontDistributions_loop ::
  "CloudFront \<Rightarrow> marker \<Rightarrow> resource list \<Rightarrow> trace \<Rightarrow> ((aws_error + resource list) \<times> trace) option" where
  "getAllCloudFrontDistributions_loop cloudFront Marker distributions t =
     (case promise (listDistributions cloudFront) (ListDistributions Marker ''20'') t of
        (Inl error, t') \<Rightarrow> Some (Inl error, t')
      | (Inr (IsTruncated, Items, NextMarker), t') \<Rightarrow>
          (let distributions = distributions @ Items in
           if \<not> IsTruncated then Some (Inr distributions, t')
           else getAllCloudFrontDistributions_loop cloudFront NextMarker distributions t'))"

definition getAllCloudFrontDistributions ::
  "CloudFront \<Rightarrow> trace \<Rightarrow> ((aws_error + resource list) \<times> trace) option" where
  "getAllCloudFrontDistributions cloudFront t =
     (case getAllCloudFrontDistributions_loop cloudFront None [] t of
        None \<Rightarrow> None
      | Some (Inl error, t') \<Rightarrow> Some (Inl error, t')
      | Some (Inr distributions, t') \<Rightarrow>
          Some (Inr (sortDesc LastModifiedTime distributions), t'))"

partial_function (option) getAllIAMRoles_loop ::
  "IAM \<Rightarrow> marker \<Rightarrow> resource list \<Rightarrow> trace \<Rightarrow> ((aws_error + resource list) \<times> trace) option" where
  "getAllIAMRoles_loop iam Marker roles t =
     (case promise (listRoles iam) (ListRoles Marker 100) t of
        (Inl error, t') \<Rightarrow> Some (Inl error, t')
      | (Inr (NextMarker, IsTruncated, Roles), t') \<Rightarrow>
          (let roles = roles @ Roles in
           if \<not> IsTruncated then Some (Inr roles, t')
           else getAllIAMRoles_loop iam NextMarker roles t'))"

definition getAllIAMRoles ::
  "IAM \<Rightarrow> trace \<Rightarrow> ((aws_error + resource list) \<times> trace) option" where
  "getAllIAMRoles iam t =
     (case getAllIAMRoles_loop iam None [] t of
        None \<Rightarrow> None
      | Some (Inl error, t') \<Rightarrow> Some (Inl error, t')
      | Some (Inr roles, t') \<Rightarrow>
          Some (Inr (sortDesc CreateDate
                  (filter (\<lambda>r. \<not> startsWith (RoleName r) ''AWSService''
                             \<and> \<not> startsWith (RoleName r) ''OrganizationAccount'') roles)), t'))"

section \<open>The deletion tasks\<close>

text \<open>
  A task's procedure is the body of an \<open>async\<close> function started inside the observable.
  Its result is \<open>Inr\<close> when the body runs to its end or returns, and \<open>Inl\<close> of the error
  when an awaited call rejects outside a \<open>try\<close>: the promise of the body is then rejected,
  nothing handles it, and the observer is told neither \<open>complete\<close> nor \<open>error\<close>. What the
  observer is told is in the trace.

  Each \<open>for\<close> loop over the selected items is a recursion over the list; the statements of
  the loop body for one item are the \<open>_item\<close> function.
\<close>

subsection \<open>Lambda functions\<close>

definition lambda_item :: "Lambda \<Rightarrow> resource \<Rightarrow> trace \<Rightarrow> (aws_error + unit) \<times> trace" where
  "lambda_item lambda r t =
     (let t = observer (Next (''Deleting '' @ FunctionName r @ ''...'')) t in
      promise (deleteFunction lambda) (DeleteFunction (FunctionName r)) t)"

fun lambda_for :: "Lambda \<Rightarrow> resource list \<Rightarrow> trace \<Rightarrow> (aws_error + unit) \<times> trace" where
  "lambda_for lambda [] t = (Inr (), t)"
| "lambda_for lambda (r # rs) t =
     (case lambda_item lambda r t of
        (Inl error, t') \<Rightarrow> (Inl error, t')
      | (Inr _, t') \<Rightarrow> lambda_for lambda rs t')"

definition lambda_task :: "Lambda \<Rightarrow> resource list \<Rightarrow> trace \<Rightarrow> (aws_error + unit) \<times> trace" where
  "lambda_task lambda rs t =
     (case lambda_for lambda rs t of
        (Inl error, t') \<Rightarrow> (Inl error, t')
      | (Inr _, t') \<Rightarrow> (Inr (), observer Complete t'))"

subsection \<open>Buckets\<close>

partial_function (option) bucket_while ::
  "S3 \<Rightarrow> string \<Rightarrow> marker \<Rightarrow> trace \<Rightarrow> ((aws_error + unit) \<times> trace) option" where
  "bucket_while s3 Bucket Marker t =
     (let t = observer (Next (''Emptying '' @ Bucket @ ''...'')) t in
      case promise (listObjects s3) (ListObjects Bucket Marker) t of
        (Inl error, t') \<Rightarrow> Some (Inl error, t')
      | (Inr (Contents, IsTruncated), t') \<Rightarrow>
          if length Contents = 0 then Some (Inr (), t')
          else
            (case promise (deleteObjects s3) (DeleteObjects Bucket (map Key Contents)) t' of
               (Inl error, t'') \<Rightarrow> Some (Inl error, t'')
             | (Inr _, t'') \<Rightarrow>
                 if \<not> IsTruncated then Some (Inr (), t'')
                 else bucket_while s3 Bucket (Some (Key (last Contents))) t''))"

definition bucket_item :: "S3 \<Rightarrow> resource \<Rightarrow> trace \<Rightarrow> ((aws_error + unit) \<times> trace) option" where
  "bucket_item s3 r t =
     (case bucket_while s3 (Name r) None t of
        None \<Rightarrow> None
      | Some (Inl error, t') \<Rightarrow> Some (Inl error, t')
      | Some (Inr _, t') \<Rightarrow>
          (let t' = observer (Next (''Deleting '' @ Name r @ ''...'')) t' in
           Some (promise (deleteBucket s3) (DeleteBucket (Name r)) t')))"

fun bucket_for :: "S3 \<Rightarrow> resource list \<Rightarrow> trace \<Rightarrow> ((aws_error + unit) \<times> trace) option" where
  "bucket_for s3 [] t = Some (Inr (), t)"
| "bucket_for s3 (r # rs) t =
     (case bucket_item s3 r t of
        None \<Rightarrow> None
      | Some (Inl error, t') \<Rightarrow> Some (Inl error, t')
      | Some (Inr _, t') \<Rightarrow> bucket_for s3 rs t')"

definition bucket_task :: "S3 \<Rightarrow> resource list \<Rightarrow> trace \<Rightarrow> ((aws_error + unit) \<times> trace) option" where
  "bucket_task s3 rs t =
     (case bucket_for s3 rs t of
        None \<Rightarrow> None
      | Some (Inl error, t') \<Rightarrow> Some (Inl error, t')
      | Some (Inr _, t') \<Rightarrow> Some (Inr (), observer Complete t'))"

subsection \<open>API gateways\<close>

text \<open>
  \<open>pRetry\<close> is the npm package p-retry, which runs on the package retry; both are
  dependencies of the program and not part of its sources, and are modelled from the
  packages. The input is called; when its promise is fulfilled, so is \<open>pRetry\<close>'s; when
  it rejects with an \<open>AbortError\<close>, \<open>pRetry\<close> rejects at once with the error wrapped in
  it; when it rejects with another error, the error is recorded and the input is called
  again after a delay, until it has been retried \<open>retries\<close> times, and \<open>pRetry\<close> then
  rejects with the main error of those recorded. The delay before retry number \<open>k\<close>
  (from 0) is \<open>minTimeout * factor ^ k\<close> milliseconds (no randomisation and no upper
  bound on the delay, the packages' defaults).

  The main error (\<open>mainError\<close> of retry) is found in one pass over the recorded errors
  that counts the occurrences of each message: an error becomes the main error when its
  message has by then occurred at least as often as the main error's had. It is \<open>null\<close>
  only when no error is recorded.
\<close>

fun mainError_for ::
  "aws_error list \<Rightarrow> (string \<Rightarrow> nat) \<Rightarrow> aws_error option \<Rightarrow> nat \<Rightarrow> aws_error option" where
  "mainError_for [] counts main mainCount = main"
| "mainError_for (error # errors) counts main mainCount =
     (let count = counts (message error) + 1;
          counts = counts (message error := count)
      in if count \<ge> mainCount then mainError_for errors counts (Some error) count
         else mainError_for errors counts main mainCount)"

definition mainError :: "aws_error list \<Rightarrow> aws_error option" where
  "mainError errors =
     (if length errors = 0 then None else mainError_for errors (\<lambda>message. 0) None 0)"

datatype 'e thrown = AbortError 'e | Thrown 'e

text \<open>
  The attempts, with the delays still to come and the errors recorded so far. An error
  has just been recorded where the main error is taken, so it is not \<open>null\<close> there.
\<close>

fun pRetry_attempts ::
  "(trace \<Rightarrow> (aws_error thrown + 'a) \<times> trace) \<Rightarrow> nat list \<Rightarrow> aws_error list \<Rightarrow> trace
     \<Rightarrow> (aws_error + 'a) \<times> trace" where
  "pRetry_attempts input timeouts errors t =
     (case input t of
        (Inr v, t') \<Rightarrow> (Inr v, t')
      | (Inl (AbortError error), t') \<Rightarrow> (Inl error, t')
      | (Inl (Thrown error), t') \<Rightarrow>
          (let errors = errors @ [error] in
           case timeouts of
             [] \<Rightarrow>
               (case mainError errors of
                  Some main \<Rightarrow> (Inl main, t')
                | None \<Rightarrow> (Inl error, t'))
           | timeout # timeouts' \<Rightarrow>
               pRetry_attempts input timeouts' errors (t' @ [SetTimeout timeout])))"

definition pRetry ::
  "(trace \<Rightarrow> (aws_error thrown + 'a) \<times> trace) \<Rightarrow> nat \<Rightarrow> nat \<Rightarrow> nat \<Rightarrow> trace \<Rightarrow> (aws_error + 'a) \<times> trace" where
  "pRetry input retries minTimeout factor t =
     pRetry_attempts input (map (\<lambda>k. minTimeout * factor ^ k) [0..<retries]) [] t"

text \<open>The function handed to \<open>pRetry\<close>: one attempt at deleting the API.\<close>

definition deleteRestApi_attempt ::
  "ApiGateway \<Rightarrow> resource \<Rightarrow> trace \<Rightarrow> (aws_error thrown + unit) \<times> trace" where
  "deleteRestApi_attempt apiGateway r t =
     (case promise (deleteRestApi apiGateway) (DeleteRestApi (id' r)) t of
        (Inr v, t') \<Rightarrow> (Inr v, t')
      | (Inl error, t') \<Rightarrow>
          if code error \<noteq> ''TooManyRequestsException'' then (Inl (AbortError error), t')
          else
            (let t' = observer (Next (message error @ ''. Will retry...'')) t' in
             (Inl (Thrown error), t')))"

definition apiGateway_item :: "ApiGateway \<Rightarrow> resource \<Rightarrow> trace \<Rightarrow> (aws_error + unit) \<times> trace" where
  "apiGateway_item apiGateway r t =
     (let t = observer (Next (''Deleting '' @ name r @ ''...'')) t in
      pRetry (deleteRestApi_attempt apiGateway r) 3 60000 2 t)"

fun apiGateway_for :: "ApiGateway \<Rightarrow> resource list \<Rightarrow> trace \<Rightarrow> (aws_error + unit) \<times> trace" where
  "apiGateway_for apiGateway [] t = (Inr (), t)"
| "apiGateway_for apiGateway (r # rs) t =
     (case apiGateway_item apiGateway r t of
        (Inl error, t') \<Rightarrow> (Inl error, t')
      | (Inr _, t') \<Rightarrow> apiGateway_for apiGateway rs t')"

definition apiGateway_task ::
  "ApiGateway \<Rightarrow> resource list \<Rightarrow> trace \<Rightarrow> (aws_error + unit) \<times> trace" where
  "apiGateway_task apiGateway rs t =
     (case apiGateway_for apiGateway rs t of
        (Inl error, t') \<Rightarrow> (Inl error, t')
      | (Inr _, t') \<Rightarrow> (Inr (), observer Complete t'))"

subsection \<open>IAM roles\<close>

fun deleteRolePolicy_for ::
  "IAM \<Rightarrow> string \<Rightarrow> string list \<Rightarrow> trace \<Rightarrow> (aws_error + unit) \<times> trace" where
  "deleteRolePolicy_for iam RoleName' [] t = (Inr (), t)"
| "deleteRolePolicy_for iam RoleName' (PolicyName' # PolicyNames) t =
     (case promise (deleteRolePolicy iam) (DeleteRolePolicy RoleName' PolicyName') t of
        (Inl error, t') \<Rightarrow> (Inl error, t')
      | (Inr _, t') \<Rightarrow> deleteRolePolicy_for iam RoleName' PolicyNames t')"

fun detachRolePolicy_for ::
  "IAM \<Rightarrow> string \<Rightarrow> AttachedPolicy list \<Rightarrow> trace \<Rightarrow> (aws_error + unit) \<times> trace" where
  "detachRolePolicy_for iam RoleName' [] t = (Inr (), t)"
| "detachRolePolicy_for iam RoleName' (AttachedPolicy # AttachedPolicies) t =
     (case promise (detachRolePolicy iam) (DetachRolePolicy RoleName' (PolicyArn AttachedPolicy)) t of
        (Inl error, t') \<Rightarrow> (Inl error, t')
      | (Inr _, t') \<Rightarrow> detachRolePolicy_for iam RoleName' AttachedPolicies t')"

definition iamRole_item :: "IAM \<Rightarrow> resource \<Rightarrow> trace \<Rightarrow> (aws_error + unit) \<times> trace" where
  "iamRole_item iam r t =
     (let t = observer (Next (''Deleting '' @ RoleName r @ ''...'')) t in
      case promise (listRolePolicies iam) (ListRolePolicies (RoleName r)) t of
        (Inl error, t1) \<Rightarrow> (Inl error, t1)
      | (Inr PolicyNames, t1) \<Rightarrow>
          (case deleteRolePolicy_for iam (RoleName r) PolicyNames t1 of
             (Inl error, t2) \<Rightarrow> (Inl error, t2)
           | (Inr _, t2) \<Rightarrow>
               (case promise (listAttachedRolePolicies iam)
                       (ListAttachedRolePolicies (RoleName r)) t2 of
                  (Inl error, t3) \<Rightarrow> (Inl error, t3)
                | (Inr AttachedPolicies, t3) \<Rightarrow>
                    (case detachRolePolicy_for iam (RoleName r) AttachedPolicies t3 of
                       (Inl error, t4) \<Rightarrow> (Inl error, t4)
                     | (Inr _, t4) \<Rightarrow>
                         promise (deleteRole iam) (DeleteRole (RoleName r)) t4))))"

fun iamRole_for :: "IAM \<Rightarrow> resource list \<Rightarrow> trace \<Rightarrow> (aws_error + unit) \<times> trace" where
  "iamRole_for iam [] t = (Inr (), t)"
| "iamRole_for iam (r # rs) t =
     (case iamRole_item iam r t of
        (Inl error, t') \<Rightarrow> (Inl error, t')
      | (Inr _, t') \<Rightarrow> iamRole_for iam rs t')"

definition iamRole_task :: "IAM \<Rightarrow> resource list \<Rightarrow> trace \<Rightarrow> (aws_error + unit) \<times> trace" where
  "iamRole_task iam rs t =
     (case iamRole_for iam rs t of
        (Inl error, t') \<Rightarrow> (Inl error, t')
      | (Inr _, t') \<Rightarrow> (Inr (), observer Complete t'))"

subsection \<open>CloudFront distributions\<close>

text \<open>
  How the body of the loop ends for one item: \<open>Continue\<close> when the loop goes on to the
  next item (the \<open>continue\<close> after a disable, or the end of the body), \<open>Return\<close> when the
  \<open>catch\<close> block returns from the procedure.
\<close>

datatype loop_exit = Continue | Return

definition cloudfront_item ::
  "CloudFront \<Rightarrow> resource \<Rightarrow> trace \<Rightarrow> (aws_error + loop_exit) \<times> trace" where
  "cloudfront_item cloudFront r t =
     (let t = observer (Next (''Fetching '' @ DomainName r @ '' configuration...'')) t in
      case promise (getDistributionConfig cloudFront) (GetDistributionConfig (Id' r)) t of
        (Inl error, t1) \<Rightarrow> (Inl error, t1)
      | (Inr (ETag, DistributionConfig), t1) \<Rightarrow>
          if Enabled DistributionConfig then
            (let t1 = observer (Next (''Disabling '' @ DomainName r @ ''...'')) t1 in
             case promise (updateDistribution cloudFront)
                    (UpdateDistribution (Id' r) (DistributionConfig\<lparr>Enabled := False\<rparr>) ETag) t1 of
               (Inl error, t2) \<Rightarrow> (Inl error, t2)
             | (Inr _, t2) \<Rightarrow> (Inr Continue, t2))
          else
            (let t1 = observer (Next (''Deleting '' @ DomainName r @ ''...'')) t1 in
             case promise (deleteDistribution cloudFront) (DeleteDistribution (Id' r) ETag) t1 of
               (Inl err, t2) \<Rightarrow> (Inr Return, observer (Error (message err)) t2)
             | (Inr _, t2) \<Rightarrow> (Inr Continue, t2)))"

fun cloudfront_for ::
  "CloudFront \<Rightarrow> resource list \<Rightarrow> trace \<Rightarrow> (aws_error + loop_exit) \<times> trace" where
  "cloudfront_for cloudFront [] t = (Inr Continue, t)"
| "cloudfront_for cloudFront (r # rs) t =
     (case cloudfront_item cloudFront r t of
        (Inl error, t') \<Rightarrow> (Inl error, t')
      | (Inr Return, t') \<Rightarrow> (Inr Return, t')
      | (Inr Continue, t') \<Rightarrow> cloudfront_for cloudFront rs t')"

definition cloudfront_task ::
  "CloudFront \<Rightarrow> resource list \<Rightarrow> trace \<Rightarrow> (aws_error + unit) \<times> trace" where
  "cloudfront_task cloudFront rs t =
     (case cloudfront_for cloudFront rs t of
        (Inl error, t') \<Rightarrow> (Inl error, t')
      | (Inr Return, t') \<Rightarrow> (Inr (), t')
      | (Inr Continue, t') \<Rightarrow> (Inr (), observer Complete t'))"

subsection \<open>CloudWatch log groups\<close>

definition logGroup_item ::
  "CloudWatchLogs \<Rightarrow> resource \<Rightarrow> trace \<Rightarrow> (aws_error + unit) \<times> trace" where
  "logGroup_item cloudWatchLogs r t =
     (let t = observer (Next (''Deleting '' @ logGroupName r @ ''...'')) t in
      promise (deleteLogGroup cloudWatchLogs) (DeleteLogGroup (logGroupName r)) t)"

fun logGroup_for ::
  "CloudWatchLogs \<Rightarrow> resource list \<Rightarrow> trace \<Rightarrow> (aws_error + unit) \<times> trace" where
  "logGroup_for cloudWatchLogs [] t = (Inr (), t)"
| "logGroup_for cloudWatchLogs (r # rs) t =
     (case logGroup_item cloudWatchLogs r t of
        (Inl error, t') \<Rightarrow> (Inl error, t')
      | (Inr _, t') \<Rightarrow> logGroup_for cloudWatchLogs rs t')"

definition logGroup_task ::
  "CloudWatchLogs \<Rightarrow> resource list \<Rightarrow> trace \<Rightarrow> (aws_error + unit) \<times> trace" where
  "logGroup_task cloudWatchLogs rs t =
     (case logGroup_for cloudWatchLogs rs t of
        (Inl error, t') \<Rightarrow> (Inl error, t')
      | (Inr _, t') \<Rightarrow> (Inr (), observer Complete t'))"

section \<open>The task generator\<close>

text \<open>
  The selection is a JavaScript object from kind to the selected records: an association
  list in the object's own key order, so that \<open>Object.keys\<close> is the list of first
  components. \<open>resources[type]\<close> is only read for a key of the object.
\<close>

type_synonym resources = "(string \<times> resource list) list"

definition Object_keys :: "resources \<Rightarrow> string list" where
  "Object_keys resources = map fst resources"

definition lookup :: "resources \<Rightarrow> string \<Rightarrow> resource list" where
  "lookup resources type = (case map_of resources type of Some rs \<Rightarrow> rs | None \<Rightarrow> [])"

text \<open>A number in a template string: its decimal digits.\<close>

fun toString :: "nat \<Rightarrow> string" where
  "toString n =
     (if n < 10 then [''0123456789'' ! n]
      else toString (n div 10) @ [''0123456789'' ! (n mod 10)])"

declare toString.simps [simp del]

record listr_task =
  title :: string
  task :: "trace \<Rightarrow> ((aws_error + unit) \<times> trace) option"

text \<open>The \<open>switch\<close> on the kind: a task, or \<open>null\<close> for a kind it does not know.\<close>

definition generateTask ::
  "Lambda \<Rightarrow> S3 \<Rightarrow> ApiGateway \<Rightarrow> IAM \<Rightarrow> CloudFront \<Rightarrow> CloudWatchLogs \<Rightarrow> resources \<Rightarrow> string
     \<Rightarrow> listr_task option" where
  "generateTask lambda s3 apiGateway iam cloudFront cloudWatchLogs resources type =
     (if type = ''lambda'' then
        Some \<lparr>title = ''Delete '' @ toString (length (lookup resources type)) @ '' Lambda functions'',
              task = (\<lambda>t. Some (lambda_task lambda (lookup resources type) t))\<rparr>
      else if type = ''bucket'' then
        Some \<lparr>title = ''Delete '' @ toString (length (lookup resources type)) @ '' buckets'',
              task = bucket_task s3 (lookup resources type)\<rparr>
      else if type = ''api-gateway'' then
        Some \<lparr>title = ''Delete '' @ toString (length (lookup resources type)) @ '' API Gateways'',
              task = (\<lambda>t. Some (apiGateway_task apiGateway (lookup resources type) t))\<rparr>
      else if type = ''iam-role'' then
        Some \<lparr>title = ''Delete '' @ toString (length (lookup resources type)) @ '' IAM roles'',
              task = (\<lambda>t. Some (iamRole_task iam (lookup resources type) t))\<rparr>
      else if type = ''cloudfront'' then
        Some \<lparr>title = ''Delete '' @ toString (length (lookup resources type))
                        @ '' CloudFront distribution'',
              task = (\<lambda>t. Some (cloudfront_task cloudFront (lookup resources type) t))\<rparr>
      else if type = ''log-group'' then
        Some \<lparr>title = ''Delete '' @ toString (length (lookup resources type))
                        @ '' CloudWatch Log Groups'',
              task = (\<lambda>t. Some (logGroup_task cloudWatchLogs (lookup resources type) t))\<rparr>
      else None)"

text \<open>\<open>Object.keys(resources).map(type => ...).filter(Boolean)\<close>\<close>

definition generateTasks ::
  "Lambda \<Rightarrow> S3 \<Rightarrow> ApiGateway \<Rightarrow> IAM \<Rightarrow> CloudFront \<Rightarrow> CloudWatchLogs \<Rightarrow> resources
     \<Rightarrow> listr_task list" where
  "generateTasks lambda s3 apiGateway iam cloudFront cloudWatchLogs resources =
     map the
       (filter (\<lambda>task. task \<noteq> None)
          (map (generateTask lambda s3 apiGateway iam cloudFront cloudWatchLogs resources)
             (Object_keys resources)))"

section \<open>Reading traces and describing providers\<close>

text \<open>The calls, the notifications and the delays of a trace, each in order.\<close>

fun calls_of :: "trace \<Rightarrow> request list" where
  "calls_of [] = []"
| "calls_of (Call q # t) = q # calls_of t"
| "calls_of (Observer n # t) = calls_of t"
| "calls_of (SetTimeout d # t) = calls_of t"

fun notifications_of :: "trace \<Rightarrow> notification list" where
  "notifications_of [] = []"
| "notifications_of (Call q # t) = notifications_of t"
| "notifications_of (Observer n # t) = n # notifications_of t"
| "notifications_of (SetTimeout d # t) = notifications_of t"

fun timeouts_of :: "trace \<Rightarrow> nat list" where
  "timeouts_of [] = []"
| "timeouts_of (Call q # t) = timeouts_of t"
| "timeouts_of (Observer n # t) = timeouts_of t"
| "timeouts_of (SetTimeout d # t) = d # timeouts_of t"

definition isListObjects :: "request \<Rightarrow> bool" where
  "isListObjects q = (case q of ListObjects _ _ \<Rightarrow> True | _ \<Rightarrow> False)"



text \<open>The number of object listings issued in a trace.\<close>

definition listings :: "trace \<Rightarrow> nat" where
  "listings t = length (filter isListObjects (calls_of t))"

text \<open>
  A sequence of provider pages. \<open>serves method t ps\<close>: from the trace \<open>t\<close> on, the method
  answers the call made after \<open>k\<close> further events with page \<open>k\<close> of \<open>ps\<close>. A lister records
  nothing but its listing calls, so this is its \<open>k\<close>-th call. \<open>answers\<close> is the same for
  an unending sequence of answers, errors included.
\<close>

definition serves :: "(trace \<Rightarrow> request \<Rightarrow> aws_error + 'p) \<Rightarrow> trace \<Rightarrow> 'p list \<Rightarrow> bool" where
  "serves method t ps =
     (\<forall>t' q. length t' < length ps \<longrightarrow> method (t @ t') q = Inr (ps ! length t'))"

definition answers :: "(trace \<Rightarrow> request \<Rightarrow> 'r) \<Rightarrow> trace \<Rightarrow> (nat \<Rightarrow> 'r) \<Rightarrow> bool" where
  "answers method t rs = (\<forall>t' q. method (t @ t') q = rs (length t'))"


definition answers_objects ::
  "S3 \<Rightarrow> trace \<Rightarrow> (nat \<Rightarrow> aws_error + (S3Object list \<times> bool)) \<Rightarrow> bool" where
  "answers_objects s3 t rs = (\<forall>t' q. listObjects s3 (t @ t') q = rs (listings t'))"

definition answers_calls :: "(trace \<Rightarrow> request \<Rightarrow> 'r) \<Rightarrow> trace \<Rightarrow> (nat \<Rightarrow> 'r) \<Rightarrow> bool" where
  "answers_calls method t rs = (\<forall>t' q. method (t @ t') q = rs (length (calls_of t')))"

text \<open>
  When an answer carries no continuation signal: it is an error, or its cursor is absent,
  or its truncation flag is false, or (for object listings) its page is empty.
\<close>

definition no_cursor :: "aws_error + (resource list \<times> marker) \<Rightarrow> bool" where
  "no_cursor a = (case a of Inl _ \<Rightarrow> True | Inr (_, next) \<Rightarrow> falsy next)"

definition distributions_end :: "aws_error + (bool \<times> resource list \<times> marker) \<Rightarrow> bool" where
  "distributions_end a = (case a of Inl _ \<Rightarrow> True | Inr (IsTruncated, _, _) \<Rightarrow> \<not> IsTruncated)"

definition roles_end :: "aws_error + (marker \<times> bool \<times> resource list) \<Rightarrow> bool" where
  "roles_end a = (case a of Inl _ \<Rightarrow> True | Inr (_, IsTruncated, _) \<Rightarrow> \<not> IsTruncated)"

definition objects_end :: "aws_error + (S3Object list \<times> bool) \<Rightarrow> bool" where
  "objects_end a =
     (case a of Inl _ \<Rightarrow> True | Inr (Contents, IsTruncated) \<Rightarrow> Contents = [] \<or> \<not> IsTruncated)"


text \<open>
  The retry policy as the program configures it. An answer is throttled when it is the
  error of code \<open>TooManyRequestsException\<close>; the call is attempted until an answer is not
  throttled, four times at most; attempt \<open>k\<close> (from 0) records the call, then, when
  throttled, the notification, and the delay if another attempt follows.
\<close>

definition throttled :: "aws_error + unit \<Rightarrow> bool" where
  "throttled a = (case a of Inl error \<Rightarrow> code error = ''TooManyRequestsException'' | Inr _ \<Rightarrow> False)"

definition attempts_made :: "(nat \<Rightarrow> aws_error + unit) \<Rightarrow> nat" where
  "attempts_made rs =
     (if \<not> throttled (rs 0) then 1
      else if \<not> throttled (rs 1) then 2
      else if \<not> throttled (rs 2) then 3
      else 4)"

definition attempt_events :: "string \<Rightarrow> (nat \<Rightarrow> aws_error + unit) \<Rightarrow> nat \<Rightarrow> trace" where
  "attempt_events restApiId rs k =
     Call (DeleteRestApi restApiId)
       # (case rs k of
            Inr _ \<Rightarrow> []
          | Inl error \<Rightarrow>
              if throttled (rs k)
              then Observer (Next (message error @ ''. Will retry...''))
                     # (if k < 3 then [SetTimeout (60000 * 2 ^ k)] else [])
              else [])"

text \<open>
  The outcome of the attempts: the last answer, unless all four attempts were throttled;
  then it is the main error of the four errors.
\<close>

fun errors_of :: "(aws_error + unit) list \<Rightarrow> aws_error list" where
  "errors_of [] = []"
| "errors_of (Inl error # as) = error # errors_of as"
| "errors_of (Inr v # as) = errors_of as"

definition retry_outcome :: "(nat \<Rightarrow> aws_error + unit) \<Rightarrow> aws_error + unit" where
  "retry_outcome rs =
     (if attempts_made rs = 4 \<and> throttled (rs 3)
      then (case mainError (errors_of [rs 0, rs 1, rs 2, rs 3]) of
              Some main \<Rightarrow> Inl main
            | None \<Rightarrow> rs 3)
      else rs (attempts_made rs - 1))"

text \<open>The label of a kind in its task's title; \<open>None\<close> for a kind the program does not know.\<close>

definition kind_label :: "string \<Rightarrow> string option" where
  "kind_label type =
     (if type = ''lambda'' then Some ''Lambda functions''
      else if type = ''bucket'' then Some ''buckets''
      else if type = ''api-gateway'' then Some ''API Gateways''
      else if type = ''iam-role'' then Some ''IAM roles''
      else if type = ''cloudfront'' then Some ''CloudFront distribution''
      else if type = ''log-group'' then Some ''CloudWatch Log Groups''
      else None)"

text \<open>The role lister's filter: the roles it keeps.\<close>

definition user_role :: "resource \<Rightarrow> bool" where
  "user_role r =
     (\<not> startsWith (RoleName r) ''AWSService'' \<and> \<not> startsWith (RoleName r) ''OrganizationAccount'')"

section \<open>Example providers\<close>

text \<open>
  Methods for concrete runs: one that answers its \<open>k\<close>-th call with page \<open>k\<close> of a list
  (and fails once the list is used up), one that numbers the object listings, one that
  always succeeds and one that always fails.
\<close>

definition replay :: "'p list \<Rightarrow> trace \<Rightarrow> request \<Rightarrow> aws_error + 'p" where
  "replay ps t q =
     (if length t < length ps then Inr (ps ! length t)
      else Inl (AWSError ''ServiceUnavailable'' ''no more answers''))"

definition replay_objects ::
  "(S3Object list \<times> bool) list \<Rightarrow> trace \<Rightarrow> request \<Rightarrow> aws_error + (S3Object list \<times> bool)" where
  "replay_objects ps t q =
     (if listings t < length ps then Inr (ps ! listings t)
      else Inl (AWSError ''ServiceUnavailable'' ''no more answers''))"

definition accept :: "trace \<Rightarrow> request \<Rightarrow> aws_error + unit" where
  "accept t q = Inr ()"

definition reject :: "string \<Rightarrow> string \<Rightarrow> trace \<Rightarrow> request \<Rightarrow> aws_error + 'a" where
  "reject c m t q = Inl (AWSError c m)"

text \<open>A record with every field empty, to be filled in per kind.\<close>

definition blank :: resource where
  "blank = \<lparr>FunctionName = [], LastModified = 0, logGroupName = [], creationTime = 0,
            id' = [], name = [], createdDate = 0, Name = [], CreationDate = 0,
            Id' = [], DomainName = [], LastModifiedTime = 0, RoleName = [], CreateDate = 0\<rparr>"

text \<open>
  A log provider that holds the given groups and honours the name prefix of the request,
  in one page.
\<close>

definition logs_holding :: "resource list \<Rightarrow> CloudWatchLogs" where
  "logs_holding groups =
     \<lparr>describeLogGroups = (\<lambda>t q. case q of
          DescribeLogGroups logGroupNamePrefix limit nextToken \<Rightarrow>
            Inr (filter (\<lambda>g. startsWith (logGroupName g) logGroupNamePrefix) groups, None)
        | _ \<Rightarrow> Inl (AWSError ''InvalidParameterException'' ''not a describeLogGroups request'')),
      deleteLogGroup = accept\<rparr>"

text \<open>Clients whose listings are empty and whose other calls all succeed.\<close>

definition ok_lambda :: Lambda where
  "ok_lambda = \<lparr>listFunctions = replay [([], None)], deleteFunction = accept\<rparr>"

definition ok_s3 :: S3 where
  "ok_s3 = \<lparr>listBuckets = replay [[]], listObjects = replay_objects [([], False)],
            deleteObjects = accept, deleteBucket = accept\<rparr>"

definition ok_apiGateway :: ApiGateway where
  "ok_apiGateway = \<lparr>getRestApis = replay [([], None)], deleteRestApi = accept\<rparr>"

definition ok_iam :: IAM where
  "ok_iam = \<lparr>listRoles = replay [(None, False, [])], listRolePolicies = (\<lambda>t q. Inr []),
             deleteRolePolicy = accept, listAttachedRolePolicies = (\<lambda>t q. Inr []),
             detachRolePolicy = accept, deleteRole = accept\<rparr>"

definition ok_cloudFront :: CloudFront where
  "ok_cloudFront =
     \<lparr>listDistributions = replay [(False, [], None)],
      getDistributionConfig = (\<lambda>t q. Inr (''E1'', \<lparr>Enabled = False, Comment = []\<rparr>)),
      updateDistribution = accept, deleteDistribution = accept\<rparr>"

definition ok_cloudWatchLogs :: CloudWatchLogs where
  "ok_cloudWatchLogs = \<lparr>describeLogGroups = replay [([], None)], deleteLogGroup = accept\<rparr>"

text \<open>
  \<open>paged continues ps\<close>: a sequence of pages of which every one but the last carries
  the continuation signal, and the last does not.
\<close>

definition paged :: "('p \<Rightarrow> bool) \<Rightarrow> 'p list \<Rightarrow> bool" where
  "paged continues ps =
     (ps \<noteq> [] \<and> (\<forall>p \<in> set (butlast ps). continues p) \<and> \<not> continues (last ps))"

text \<open>A record named \<open>n\<close> and dated \<open>d\<close>, whatever its kind.\<close>

definition item :: "string \<Rightarrow> int \<Rightarrow> resource" where
  "item n d = \<lparr>FunctionName = n, LastModified = d, logGroupName = n, creationTime = d,
              id' = n, name = n, createdDate = d, Name = n, CreationDate = d,
              Id' = n, DomainName = n, LastModifiedTime = d, RoleName = n, CreateDate = d\<rparr>"

text \<open>Clients that serve their listing in two pages.\<close>

definition example_lambda :: Lambda where
  "example_lambda =
     \<lparr>listFunctions = replay [([item ''a'' 1, item ''b'' 3], Some ''next''), ([item ''c'' 2], None)],
      deleteFunction = accept\<rparr>"

definition example_cloudWatchLogs :: CloudWatchLogs where
  "example_cloudWatchLogs =
     \<lparr>describeLogGroups =
        replay [([item ''/aws/lambda/a'' 1], Some ''next''), ([item ''/aws/lambda/b'' 2], None)],
      deleteLogGroup = accept\<rparr>"

definition example_apiGateway :: ApiGateway where
  "example_apiGateway =
     \<lparr>getRestApis = replay [([item ''a'' 1], Some ''next''), ([item ''b'' 2], None)],
      deleteRestApi = accept\<rparr>"

definition example_cloudFront :: CloudFront where
  "example_cloudFront =
     \<lparr>listDistributions =
        replay [(True, [item ''a'' 1], Some ''next''), (False, [item ''b'' 2], None)],
      getDistributionConfig = (\<lambda>t q. Inr (''E1'', \<lparr>Enabled = True, Comment = ''site''\<rparr>)),
      updateDistribution = accept, deleteDistribution = accept\<rparr>"

definition example_iam :: IAM where
  "example_iam =
     \<lparr>listRoles = replay
        [(Some ''next'', True, [item ''AWSServiceRoleForSupport'' 5, item ''app-role'' 1]),
         (None, False, [item ''OrganizationAccountAccessRole'' 3, item ''deploy-role'' 9])],
      listRolePolicies = (\<lambda>t q. Inr [''inline-a'', ''inline-b'']),
      deleteRolePolicy = accept,
      listAttachedRolePolicies =
        (\<lambda>t q. Inr [\<lparr>PolicyName = ''ReadOnly'', PolicyArn = ''arn:aws:iam::aws:policy/ReadOnly''\<rparr>]),
      detachRolePolicy = accept, deleteRole = accept\<rparr>"

definition example_s3 :: S3 where
  "example_s3 =
     \<lparr>listBuckets = replay [[item ''assets'' 1, item ''logs'' 2]],
      listObjects = replay_objects [([\<lparr>Key = ''k1''\<rparr>, \<lparr>Key = ''k2''\<rparr>], True), ([\<lparr>Key = ''k3''\<rparr>], False)],
      deleteObjects = accept, deleteBucket = accept\<rparr>"


text \<open>An API gateway that throttles the first \<open>n\<close> calls made and accepts the later ones.\<close>

definition throttling_apiGateway :: "nat \<Rightarrow> ApiGateway" where
  "throttling_apiGateway n =
     \<lparr>getRestApis = replay [([], None)],
      deleteRestApi = (\<lambda>t q.
        if length (calls_of t) < n
        then Inl (AWSError ''TooManyRequestsException'' ''Too Many Requests'')
        else Inr ())\<rparr>"

text \<open>
  An API gateway that throttles the first calls made, call \<open>k\<close> with message \<open>k\<close> of the
  list, and accepts the later ones.
\<close>

definition throttling_with :: "string list \<Rightarrow> ApiGateway" where
  "throttling_with messages =
     \<lparr>getRestApis = replay [([], None)],
      deleteRestApi = (\<lambda>t q.
        if length (calls_of t) < length messages
        then Inl (AWSError ''TooManyRequestsException'' (messages ! length (calls_of t)))
        else Inr ())\<rparr>"

text \<open>Clients whose delete call fails.\<close>

definition failing_lambda :: Lambda where
  "failing_lambda =
     \<lparr>listFunctions = replay [([], None)],
      deleteFunction = reject ''ServiceException'' ''Internal failure''\<rparr>"

definition failing_cloudFront :: CloudFront where
  "failing_cloudFront =
     \<lparr>listDistributions = replay [(False, [], None)],
      getDistributionConfig = (\<lambda>t q. Inr (''E1'', \<lparr>Enabled = False, Comment = []\<rparr>)),
      updateDistribution = accept,
      deleteDistribution = reject ''DistributionNotDisabled'' ''The distribution is not disabled''\<rparr>"

text \<open>A Lambda client that returns the same page of one function twice.\<close>

definition repeating_lambda :: Lambda where
  "repeating_lambda =
     \<lparr>listFunctions = replay [([item ''f'' 1], Some ''again''), ([item ''f'' 1], None)],
      deleteFunction = accept\<rparr>"

section \<open>Properties\<close>

subsection \<open>The task generator\<close>

lemma lookup_distinct:
  "distinct (map fst resources) \<Longrightarrow> (type, items) \<in> set resources \<Longrightarrow>
   lookup resources type = items"
  by (simp add: lookup_def)

lemma generateTask_Some_iff:
  "(\<exists>y. generateTask lambda s3 apiGateway iam cloudFront cloudWatchLogs resources type = Some y)
     = (\<exists>y. kind_label type = Some y)"
  by (simp add: generateTask_def kind_label_def)

lemma generateTask_title:
  "kind_label type \<noteq> None \<Longrightarrow>
   title (the (generateTask lambda s3 apiGateway iam cloudFront cloudWatchLogs resources type)) =
     ''Delete '' @ toString (length (lookup resources type)) @ '' '' @ the (kind_label type)"
  by (simp add: generateTask_def kind_label_def split: if_splits)

lemma generateTasks_titles_of_pairs:
  "distinct (map fst resources) \<Longrightarrow> set ps \<subseteq> set resources \<Longrightarrow>
   map title (map the (filter (\<lambda>task. task \<noteq> None)
      (map (generateTask lambda s3 apiGateway iam cloudFront cloudWatchLogs resources)
         (map fst ps)))) =
   map (\<lambda>(type, items). ''Delete '' @ toString (length items) @ '' '' @ the (kind_label type))
       (filter (\<lambda>(type, items). kind_label type \<noteq> None) ps)"
proof (induction ps)
  case Nil
  then show ?case by simp
next
  case (Cons p ps)
  obtain type items where p: "p = (type, items)" by (cases p)
  have l: "lookup resources type = items"
    using Cons.prems p by (intro lookup_distinct) auto
  show ?case
    using Cons p l by (simp add: generateTask_Some_iff generateTask_title)
qed

text \<open>
  Claim C8. For a selection whose keys are distinct (an object's keys are), the task
  generator returns one task for every key that is a supported kind, in the order of the
  keys and none for any other key; the title of each is \<open>Delete\<close>, the number of items
  selected for the kind, and the kind's label. So a selection with \<open>N\<close> supported kinds
  yields exactly \<open>N\<close> tasks.
\<close>

theorem generateTasks_one_task_per_kind:
  assumes "distinct (Object_keys resources)"
  shows "map title (generateTasks lambda s3 apiGateway iam cloudFront cloudWatchLogs resources) =
           map (\<lambda>(type, items). ''Delete '' @ toString (length items) @ '' '' @ the (kind_label type))
               (filter (\<lambda>(type, items). kind_label type \<noteq> None) resources)
       \<and> length (generateTasks lambda s3 apiGateway iam cloudFront cloudWatchLogs resources) =
           length (filter (\<lambda>type. kind_label type \<noteq> None) (Object_keys resources))"
proof
  show "map title (generateTasks lambda s3 apiGateway iam cloudFront cloudWatchLogs resources) =
           map (\<lambda>(type, items). ''Delete '' @ toString (length items) @ '' '' @ the (kind_label type))
               (filter (\<lambda>(type, items). kind_label type \<noteq> None) resources)"
    using assms generateTasks_titles_of_pairs[of resources resources]
    by (simp add: generateTasks_def Object_keys_def)
  show "length (generateTasks lambda s3 apiGateway iam cloudFront cloudWatchLogs resources) =
           length (filter (\<lambda>type. kind_label type \<noteq> None) (Object_keys resources))"
    by (simp add: generateTasks_def filter_map comp_def generateTask_Some_iff)
qed

theorem generateTasks_one_task_per_kind_witness:
  "map title (generateTasks ok_lambda ok_s3 ok_apiGateway ok_iam ok_cloudFront ok_cloudWatchLogs
       [(''bucket'', [blank\<lparr>Name := ''assets''\<rparr>, blank\<lparr>Name := ''logs''\<rparr>]),
        (''queue'', [blank]),
        (''lambda'', [blank\<lparr>FunctionName := ''api''\<rparr>])]) =
     [''Delete 2 buckets'', ''Delete 1 Lambda functions'']
   \<and> length (generateTasks ok_lambda ok_s3 ok_apiGateway ok_iam ok_cloudFront ok_cloudWatchLogs
       [(''bucket'', [blank\<lparr>Name := ''assets''\<rparr>, blank\<lparr>Name := ''logs''\<rparr>]),
        (''queue'', [blank]),
        (''lambda'', [blank\<lparr>FunctionName := ''api''\<rparr>])]) = 2"
  using generateTasks_one_task_per_kind[of
       "[(''bucket'', [blank\<lparr>Name := ''assets''\<rparr>, blank\<lparr>Name := ''logs''\<rparr>]),
        (''queue'', [blank]),
        (''lambda'', [blank\<lparr>FunctionName := ''api''\<rparr>])]"
       ok_lambda ok_s3 ok_apiGateway ok_iam ok_cloudFront ok_cloudWatchLogs]
  by (simp add: Object_keys_def kind_label_def toString.simps)

subsection \<open>Traces and scripted providers\<close>

lemma calls_of_append: "calls_of (a @ b) = calls_of a @ calls_of b"
  by (induction a rule: calls_of.induct) auto

lemma notifications_of_append: "notifications_of (a @ b) = notifications_of a @ notifications_of b"
  by (induction a rule: notifications_of.induct) auto

lemma timeouts_of_append: "timeouts_of (a @ b) = timeouts_of a @ timeouts_of b"
  by (induction a rule: timeouts_of.induct) auto

lemma listings_append: "listings (a @ b) = listings a + listings b"
  by (simp add: listings_def calls_of_append)

lemma calls_of_map: "calls_of (map (\<lambda>x. Call (f x)) xs) = map f xs"
  by (induction xs) auto

lemma item_fields:
  "FunctionName (item n d) = n" "logGroupName (item n d) = n" "id' (item n d) = n"
  "name (item n d) = n" "Name (item n d) = n" "Id' (item n d) = n"
  "DomainName (item n d) = n" "RoleName (item n d) = n"
  by (simp_all add: item_def)

lemma serves_head: "serves method t (p # ps) \<Longrightarrow> method t q = Inr p"
  unfolding serves_def
  by (metis append_Nil2 length_greater_0_conv list.distinct(1) list.size(3) nth_Cons_0)

lemma serves_tail: "serves method t (p # ps) \<Longrightarrow> serves method (t @ [e]) ps"
  unfolding serves_def
proof (intro allI impI)
  fix t' :: trace and q
  assume a: "\<forall>t' q. length t' < length (p # ps) \<longrightarrow> method (t @ t') q = Inr ((p # ps) ! length t')"
    and b: "length t' < length ps"
  from b have "length (e # t') < length (p # ps)" by simp
  with a have "method (t @ (e # t')) q = Inr ((p # ps) ! length (e # t'))" by blast
  then show "method ((t @ [e]) @ t') q = Inr (ps ! length t')" by simp
qed

lemma answers_head: "answers method t rs \<Longrightarrow> method t q = rs 0"
  unfolding answers_def by (metis append_Nil2 list.size(3))

lemma answers_tail: "answers method t rs \<Longrightarrow> answers method (t @ [e]) (\<lambda>k. rs (Suc k))"
  unfolding answers_def by (metis append.assoc append_Cons append_Nil length_Cons)



lemma answers_objects_head:
  "answers_objects s3 t rs \<Longrightarrow> listings E = 0 \<Longrightarrow> listObjects s3 (t @ E) q = rs 0"
  unfolding answers_objects_def by simp

lemma answers_objects_tail:
  assumes "answers_objects s3 t rs" and "listings E = 1"
  shows "answers_objects s3 (t @ E) (\<lambda>k. rs (Suc k))"
  using assms unfolding answers_objects_def by (simp add: listings_append)

lemma listings_simps:
  "listings [] = 0"
  "listings (Observer n # t) = listings t"
  "listings (SetTimeout d # t) = listings t"
  "listings (Call (ListObjects b m) # t) = Suc (listings t)"
  "listings (Call (DeleteObjects b ks) # t) = listings t"
  by (simp_all add: listings_def isListObjects_def)

subsection \<open>The lister loops\<close>

lemma getAllFunctions_loop_pages:
  "ps \<noteq> [] \<Longrightarrow> serves (listFunctions lambda) t ps \<Longrightarrow>
   (\<forall>p \<in> set (butlast ps). \<not> falsy (snd p)) \<Longrightarrow> falsy (snd (last ps)) \<Longrightarrow>
   getAllFunctions_loop lambda Marker acc t =
     Some (Inr (acc @ concat (map fst ps)),
           t @ map (\<lambda>m. Call (ListFunctions m 10)) (Marker # map snd (butlast ps)))"
proof (induction ps arbitrary: t Marker acc rule: list_nonempty_induct)
  case (single p)
  then show ?case
    by (subst getAllFunctions_loop.simps)
       (auto simp: promise_def serves_head[OF single(1)] Let_def split: prod.splits)
next
  case (cons p ps)
  obtain Functions NextMarker where p: "p = (Functions, NextMarker)"
    by (cases p) auto
  have more: "\<not> falsy NextMarker"
    using cons.prems(2) cons.hyps(1) p by simp
  have ih: "getAllFunctions_loop lambda NextMarker (acc @ Functions) (t @ [Call (ListFunctions Marker 10)]) =
     Some (Inr ((acc @ Functions) @ concat (map fst ps)),
           (t @ [Call (ListFunctions Marker 10)])
             @ map (\<lambda>m. Call (ListFunctions m 10)) (NextMarker # map snd (butlast ps)))"
    using cons.prems cons.hyps by (intro cons.IH serves_tail[OF cons.prems(1)]) auto
  show ?case
    using more cons.hyps(1)
    by (subst getAllFunctions_loop.simps)
       (simp add: promise_def serves_head[OF cons.prems(1)] Let_def ih p)
qed

lemma getAllFunctions_loop_returns:
  "answers (listFunctions lambda) t rs \<Longrightarrow> no_cursor (rs n) \<Longrightarrow>
   \<exists>res. getAllFunctions_loop lambda Marker acc t = Some res"
proof (induction n arbitrary: t rs Marker acc)
  case 0
  have a: "listFunctions lambda t (ListFunctions Marker 10) = rs 0"
    using 0(1) by (rule answers_head)
  show ?case
    using 0(2)
    by (subst getAllFunctions_loop.simps)
       (auto simp: promise_def a Let_def no_cursor_def split: sum.splits prod.splits)
next
  case (Suc n)
  have a: "listFunctions lambda t (ListFunctions Marker 10) = rs 0"
    using Suc.prems(1) by (rule answers_head)
  have b: "answers (listFunctions lambda) (t @ [Call (ListFunctions Marker 10)]) (\<lambda>k. rs (Suc k))"
    using Suc.prems(1) by (rule answers_tail)
  have ih: "\<exists>res. getAllFunctions_loop lambda M' acc' (t @ [Call (ListFunctions Marker 10)]) = Some res" for M' acc'
    using Suc.IH[OF b] Suc.prems(2) by simp
  show ?case
    using ih
    by (subst getAllFunctions_loop.simps)
       (auto simp: promise_def a Let_def split: sum.splits prod.splits)
qed

lemma getAllLogGroups_loop_pages:
  "ps \<noteq> [] \<Longrightarrow> serves (describeLogGroups cloudWatchLogs) t ps \<Longrightarrow>
   (\<forall>p \<in> set (butlast ps). \<not> falsy (snd p)) \<Longrightarrow> falsy (snd (last ps)) \<Longrightarrow>
   getAllLogGroups_loop cloudWatchLogs Marker acc t =
     Some (Inr (acc @ concat (map fst ps)),
           t @ map (\<lambda>m. Call (DescribeLogGroups ''/aws/'' 50 m)) (Marker # map snd (butlast ps)))"
proof (induction ps arbitrary: t Marker acc rule: list_nonempty_induct)
  case (single p)
  then show ?case
    by (subst getAllLogGroups_loop.simps)
       (auto simp: promise_def serves_head[OF single(1)] Let_def split: prod.splits)
next
  case (cons p ps)
  obtain logGroups nextToken where p: "p = (logGroups, nextToken)"
    by (cases p) auto
  have more: "\<not> falsy nextToken"
    using cons.prems(2) cons.hyps(1) p by simp
  have ih: "getAllLogGroups_loop cloudWatchLogs nextToken (acc @ logGroups) (t @ [Call (DescribeLogGroups ''/aws/'' 50 Marker)]) =
     Some (Inr ((acc @ logGroups) @ concat (map fst ps)),
           (t @ [Call (DescribeLogGroups ''/aws/'' 50 Marker)])
             @ map (\<lambda>m. Call (DescribeLogGroups ''/aws/'' 50 m)) (nextToken # map snd (butlast ps)))"
    using cons.prems cons.hyps by (intro cons.IH serves_tail[OF cons.prems(1)]) auto
  show ?case
    using more cons.hyps(1)
    by (subst getAllLogGroups_loop.simps)
       (simp add: promise_def serves_head[OF cons.prems(1)] Let_def ih p)
qed

lemma getAllLogGroups_loop_returns:
  "answers (describeLogGroups cloudWatchLogs) t rs \<Longrightarrow> no_cursor (rs n) \<Longrightarrow>
   \<exists>res. getAllLogGroups_loop cloudWatchLogs Marker acc t = Some res"
proof (induction n arbitrary: t rs Marker acc)
  case 0
  have a: "describeLogGroups cloudWatchLogs t (DescribeLogGroups ''/aws/'' 50 Marker) = rs 0"
    using 0(1) by (rule answers_head)
  show ?case
    using 0(2)
    by (subst getAllLogGroups_loop.simps)
       (auto simp: promise_def a Let_def no_cursor_def split: sum.splits prod.splits)
next
  case (Suc n)
  have a: "describeLogGroups cloudWatchLogs t (DescribeLogGroups ''/aws/'' 50 Marker) = rs 0"
    using Suc.prems(1) by (rule answers_head)
  have b: "answers (describeLogGroups cloudWatchLogs) (t @ [Call (DescribeLogGroups ''/aws/'' 50 Marker)]) (\<lambda>k. rs (Suc k))"
    using Suc.prems(1) by (rule answers_tail)
  have ih: "\<exists>res. getAllLogGroups_loop cloudWatchLogs M' acc' (t @ [Call (DescribeLogGroups ''/aws/'' 50 Marker)]) = Some res" for M' acc'
    using Suc.IH[OF b] Suc.prems(2) by simp
  show ?case
    using ih
    by (subst getAllLogGroups_loop.simps)
       (auto simp: promise_def a Let_def split: sum.splits prod.splits)
qed

lemma getAllApiGateways_loop_pages:
  "ps \<noteq> [] \<Longrightarrow> serves (getRestApis apiGateway) t ps \<Longrightarrow>
   (\<forall>p \<in> set (butlast ps). \<not> falsy (snd p)) \<Longrightarrow> falsy (snd (last ps)) \<Longrightarrow>
   getAllApiGateways_loop apiGateway Marker acc t =
     Some (Inr (acc @ concat (map fst ps)),
           t @ map (\<lambda>m. Call (GetRestApis m 10)) (Marker # map snd (butlast ps)))"
proof (induction ps arbitrary: t Marker acc rule: list_nonempty_induct)
  case (single p)
  then show ?case
    by (subst getAllApiGateways_loop.simps)
       (auto simp: promise_def serves_head[OF single(1)] Let_def split: prod.splits)
next
  case (cons p ps)
  obtain items position where p: "p = (items, position)"
    by (cases p) auto
  have more: "\<not> falsy position"
    using cons.prems(2) cons.hyps(1) p by simp
  have ih: "getAllApiGateways_loop apiGateway position (acc @ items) (t @ [Call (GetRestApis Marker 10)]) =
     Some (Inr ((acc @ items) @ concat (map fst ps)),
           (t @ [Call (GetRestApis Marker 10)])
             @ map (\<lambda>m. Call (GetRestApis m 10)) (position # map snd (butlast ps)))"
    using cons.prems cons.hyps by (intro cons.IH serves_tail[OF cons.prems(1)]) auto
  show ?case
    using more cons.hyps(1)
    by (subst getAllApiGateways_loop.simps)
       (simp add: promise_def serves_head[OF cons.prems(1)] Let_def ih p)
qed

lemma getAllApiGateways_loop_returns:
  "answers (getRestApis apiGateway) t rs \<Longrightarrow> no_cursor (rs n) \<Longrightarrow>
   \<exists>res. getAllApiGateways_loop apiGateway Marker acc t = Some res"
proof (induction n arbitrary: t rs Marker acc)
  case 0
  have a: "getRestApis apiGateway t (GetRestApis Marker 10) = rs 0"
    using 0(1) by (rule answers_head)
  show ?case
    using 0(2)
    by (subst getAllApiGateways_loop.simps)
       (auto simp: promise_def a Let_def no_cursor_def split: sum.splits prod.splits)
next
  case (Suc n)
  have a: "getRestApis apiGateway t (GetRestApis Marker 10) = rs 0"
    using Suc.prems(1) by (rule answers_head)
  have b: "answers (getRestApis apiGateway) (t @ [Call (GetRestApis Marker 10)]) (\<lambda>k. rs (Suc k))"
    using Suc.prems(1) by (rule answers_tail)
  have ih: "\<exists>res. getAllApiGateways_loop apiGateway M' acc' (t @ [Call (GetRestApis Marker 10)]) = Some res" for M' acc'
    using Suc.IH[OF b] Suc.prems(2) by simp
  show ?case
    using ih
    by (subst getAllApiGateways_loop.simps)
       (auto simp: promise_def a Let_def split: sum.splits prod.splits)
qed

lemma getAllCloudFrontDistributions_loop_pages:
  "ps \<noteq> [] \<Longrightarrow> serves (listDistributions cloudFront) t ps \<Longrightarrow>
   (\<forall>p \<in> set (butlast ps). fst p) \<Longrightarrow> \<not> fst (last ps) \<Longrightarrow>
   getAllCloudFrontDistributions_loop cloudFront Marker acc t =
     Some (Inr (acc @ concat (map (\<lambda>p. fst (snd p)) ps)),
           t @ map (\<lambda>m. Call (ListDistributions m ''20'')) (Marker # map (\<lambda>p. snd (snd p)) (butlast ps)))"
proof (induction ps arbitrary: t Marker acc rule: list_nonempty_induct)
  case (single p)
  then show ?case
    by (subst getAllCloudFrontDistributions_loop.simps)
       (auto simp: promise_def serves_head[OF single(1)] Let_def split: prod.splits)
next
  case (cons p ps)
  obtain IsTruncated Items NextMarker where p: "p = (IsTruncated, Items, NextMarker)"
    by (cases p) auto
  have more: "IsTruncated"
    using cons.prems(2) cons.hyps(1) p by simp
  have ih: "getAllCloudFrontDistributions_loop cloudFront NextMarker (acc @ Items) (t @ [Call (ListDistributions Marker ''20'')]) =
     Some (Inr ((acc @ Items) @ concat (map (\<lambda>p. fst (snd p)) ps)),
           (t @ [Call (ListDistributions Marker ''20'')])
             @ map (\<lambda>m. Call (ListDistributions m ''20'')) (NextMarker # map (\<lambda>p. snd (snd p)) (butlast ps)))"
    using cons.prems cons.hyps by (intro cons.IH serves_tail[OF cons.prems(1)]) auto
  show ?case
    using more cons.hyps(1)
    by (subst getAllCloudFrontDistributions_loop.simps)
       (simp add: promise_def serves_head[OF cons.prems(1)] Let_def ih p)
qed

lemma getAllCloudFrontDistributions_loop_returns:
  "answers (listDistributions cloudFront) t rs \<Longrightarrow> distributions_end (rs n) \<Longrightarrow>
   \<exists>res. getAllCloudFrontDistributions_loop cloudFront Marker acc t = Some res"
proof (induction n arbitrary: t rs Marker acc)
  case 0
  have a: "listDistributions cloudFront t (ListDistributions Marker ''20'') = rs 0"
    using 0(1) by (rule answers_head)
  show ?case
    using 0(2)
    by (subst getAllCloudFrontDistributions_loop.simps)
       (auto simp: promise_def a Let_def distributions_end_def split: sum.splits prod.splits)
next
  case (Suc n)
  have a: "listDistributions cloudFront t (ListDistributions Marker ''20'') = rs 0"
    using Suc.prems(1) by (rule answers_head)
  have b: "answers (listDistributions cloudFront) (t @ [Call (ListDistributions Marker ''20'')]) (\<lambda>k. rs (Suc k))"
    using Suc.prems(1) by (rule answers_tail)
  have ih: "\<exists>res. getAllCloudFrontDistributions_loop cloudFront M' acc' (t @ [Call (ListDistributions Marker ''20'')]) = Some res" for M' acc'
    using Suc.IH[OF b] Suc.prems(2) by simp
  show ?case
    using ih
    by (subst getAllCloudFrontDistributions_loop.simps)
       (auto simp: promise_def a Let_def split: sum.splits prod.splits)
qed

lemma getAllIAMRoles_loop_pages:
  "ps \<noteq> [] \<Longrightarrow> serves (listRoles iam) t ps \<Longrightarrow>
   (\<forall>p \<in> set (butlast ps). fst (snd p)) \<Longrightarrow> \<not> fst (snd (last ps)) \<Longrightarrow>
   getAllIAMRoles_loop iam Marker acc t =
     Some (Inr (acc @ concat (map (\<lambda>p. snd (snd p)) ps)),
           t @ map (\<lambda>m. Call (ListRoles m 100)) (Marker # map fst (butlast ps)))"
proof (induction ps arbitrary: t Marker acc rule: list_nonempty_induct)
  case (single p)
  then show ?case
    by (subst getAllIAMRoles_loop.simps)
       (auto simp: promise_def serves_head[OF single(1)] Let_def split: prod.splits)
next
  case (cons p ps)
  obtain NextMarker IsTruncated Roles where p: "p = (NextMarker, IsTruncated, Roles)"
    by (cases p) auto
  have more: "IsTruncated"
    using cons.prems(2) cons.hyps(1) p by simp
  have ih: "getAllIAMRoles_loop iam NextMarker (acc @ Roles) (t @ [Call (ListRoles Marker 100)]) =
     Some (Inr ((acc @ Roles) @ concat (map (\<lambda>p. snd (snd p)) ps)),
           (t @ [Call (ListRoles Marker 100)])
             @ map (\<lambda>m. Call (ListRoles m 100)) (NextMarker # map fst (butlast ps)))"
    using cons.prems cons.hyps by (intro cons.IH serves_tail[OF cons.prems(1)]) auto
  show ?case
    using more cons.hyps(1)
    by (subst getAllIAMRoles_loop.simps)
       (simp add: promise_def serves_head[OF cons.prems(1)] Let_def ih p)
qed

lemma getAllIAMRoles_loop_returns:
  "answers (listRoles iam) t rs \<Longrightarrow> roles_end (rs n) \<Longrightarrow>
   \<exists>res. getAllIAMRoles_loop iam Marker acc t = Some res"
proof (induction n arbitrary: t rs Marker acc)
  case 0
  have a: "listRoles iam t (ListRoles Marker 100) = rs 0"
    using 0(1) by (rule answers_head)
  show ?case
    using 0(2)
    by (subst getAllIAMRoles_loop.simps)
       (auto simp: promise_def a Let_def roles_end_def split: sum.splits prod.splits)
next
  case (Suc n)
  have a: "listRoles iam t (ListRoles Marker 100) = rs 0"
    using Suc.prems(1) by (rule answers_head)
  have b: "answers (listRoles iam) (t @ [Call (ListRoles Marker 100)]) (\<lambda>k. rs (Suc k))"
    using Suc.prems(1) by (rule answers_tail)
  have ih: "\<exists>res. getAllIAMRoles_loop iam M' acc' (t @ [Call (ListRoles Marker 100)]) = Some res" for M' acc'
    using Suc.IH[OF b] Suc.prems(2) by simp
  show ?case
    using ih
    by (subst getAllIAMRoles_loop.simps)
       (auto simp: promise_def a Let_def split: sum.splits prod.splits)
qed

subsection \<open>The bucket loop\<close>

lemma bucket_while_returns:
  "answers_objects s3 t rs \<Longrightarrow> objects_end (rs n) \<Longrightarrow>
   \<exists>res. bucket_while s3 Bucket Marker t = Some res"
proof (induction n arbitrary: t rs Marker)
  case 0
  have a: "listObjects s3 (t @ [Observer x]) q = rs 0" for x q
    using 0(1) by (rule answers_objects_head) (simp add: listings_simps)
  show ?case
    using 0(2)
    by (subst bucket_while.simps)
       (auto simp: promise_def observer_def a Let_def objects_end_def split: sum.splits prod.splits)
next
  case (Suc n)
  have a: "listObjects s3 (t @ [Observer x]) q = rs 0" for x q
    using Suc.prems(1) by (rule answers_objects_head) (simp add: listings_simps)
  have b: "answers_objects s3 (t @ [Observer x, Call (ListObjects Bucket Marker), Call (DeleteObjects Bucket ks)])
             (\<lambda>k. rs (Suc k))" for x ks
    using Suc.prems(1) by (rule answers_objects_tail) (simp add: listings_simps)
  have ih: "\<exists>res. bucket_while s3 Bucket M'
              (t @ [Observer x, Call (ListObjects Bucket Marker), Call (DeleteObjects Bucket ks)]) = Some res"
    for M' x ks
    using Suc.IH[OF b] Suc.prems(2) by simp
  show ?case
    using ih
    by (subst bucket_while.simps)
       (auto simp: promise_def observer_def a Let_def split: sum.splits prod.splits)
qed





subsection \<open>The retry wrapper\<close>

declare pRetry_attempts.simps [simp del]

lemma pRetry_attempts_Nil:
  "pRetry_attempts input [] errors t =
     (case input t of
        (Inr v, t') \<Rightarrow> (Inr v, t')
      | (Inl (AbortError error), t') \<Rightarrow> (Inl error, t')
      | (Inl (Thrown error), t') \<Rightarrow>
          (case mainError (errors @ [error]) of
             Some main \<Rightarrow> (Inl main, t')
           | None \<Rightarrow> (Inl error, t')))"
  by (subst pRetry_attempts.simps) (simp split: prod.splits sum.splits thrown.splits)

lemma pRetry_attempts_Cons:
  "pRetry_attempts input (d # ds) errors t =
     (case input t of
        (Inr v, t') \<Rightarrow> (Inr v, t')
      | (Inl (AbortError error), t') \<Rightarrow> (Inl error, t')
      | (Inl (Thrown error), t') \<Rightarrow>
          pRetry_attempts input ds (errors @ [error]) (t' @ [SetTimeout d]))"
  by (subst pRetry_attempts.simps) (simp split: prod.splits sum.splits thrown.splits)

lemma timeouts_3: "map (\<lambda>k. 60000 * 2 ^ k) [0..<3] = [60000, 120000, 240000::nat]"
  by (simp add: numeral_3_eq_3)

lemma upt_small:
  "[0..<1] = [0]" "[0..<2] = [0, 1]" "[0..<3] = [0, 1, 2]" "[0..<4] = [0, 1, 2, 3]"
  by (simp_all add: upt_rec)

lemma attempt_step:
  assumes "answers_calls (deleteRestApi apiGateway) t rs" and "length (calls_of E) = k"
  shows "deleteRestApi_attempt apiGateway r (t @ E) =
     (case rs k of
        Inr v \<Rightarrow> (Inr v, t @ E @ [Call (DeleteRestApi (id' r))])
      | Inl error \<Rightarrow>
          if throttled (rs k)
          then (Inl (Thrown error), t @ E @ [Call (DeleteRestApi (id' r)),
                                          Observer (Next (message error @ ''. Will retry...''))])
          else (Inl (AbortError error), t @ E @ [Call (DeleteRestApi (id' r))]))"
proof -
  have "deleteRestApi apiGateway (t @ E) (DeleteRestApi (id' r)) = rs k"
    using assms unfolding answers_calls_def by simp
  then show ?thesis
    by (simp add: deleteRestApi_attempt_def promise_def observer_def throttled_def Let_def
          split: sum.splits)
qed

lemma throttled_Inr: "\<not> throttled (Inr v)"
  by (simp add: throttled_def)

lemma deleteRestApi_retries:
  assumes "answers_calls (deleteRestApi apiGateway) t rs" and E0: "calls_of E0 = []"
  shows "pRetry_attempts (deleteRestApi_attempt apiGateway r) [60000, 120000, 240000] [] (t @ E0) =
           (retry_outcome rs,
            t @ E0 @ concat (map (attempt_events (id' r) rs) [0..<attempts_made rs]))"
proof -
  let ?C = "Call (DeleteRestApi (id' r))"
  let ?P = "pRetry_attempts (deleteRestApi_attempt apiGateway r)"
  note step = attempt_step[OF assms(1), of _ _ r]
  have a0: "deleteRestApi_attempt apiGateway r (t @ E0) =
     (case rs 0 of
        Inr v \<Rightarrow> (Inr v, t @ E0 @ [?C])
      | Inl error \<Rightarrow>
          if throttled (rs 0)
          then (Inl (Thrown error), t @ E0 @ [?C, Observer (Next (message error @ ''. Will retry...''))])
          else (Inl (AbortError error), t @ E0 @ [?C]))"
    by (rule step) (simp add: E0)
  show ?thesis
  proof (cases "throttled (rs 0)")
    case False
    then show ?thesis
      by (auto simp: pRetry_attempts_Cons a0 attempts_made_def attempt_events_def retry_outcome_def
            upt_small split: sum.splits)
  next
    case t0: True
    then obtain e0 where e0: "rs 0 = Inl e0" by (auto simp: throttled_def split: sum.splits)
    let ?E1 = "E0 @ [?C, Observer (Next (message e0 @ ''. Will retry...'')), SetTimeout 60000]"
    have s1: "?P [60000, 120000, 240000] [] (t @ E0) = ?P [120000, 240000] [e0] (t @ ?E1)"
      using t0 e0 by (simp add: pRetry_attempts_Cons a0)
    have a1: "deleteRestApi_attempt apiGateway r (t @ ?E1) =
       (case rs 1 of
          Inr v \<Rightarrow> (Inr v, t @ ?E1 @ [?C])
        | Inl error \<Rightarrow>
            if throttled (rs 1)
            then (Inl (Thrown error), t @ ?E1 @ [?C, Observer (Next (message error @ ''. Will retry...''))])
            else (Inl (AbortError error), t @ ?E1 @ [?C]))"
      by (rule step) (simp add: E0 calls_of_append)
    show ?thesis
    proof (cases "throttled (rs 1)")
      case False
      then show ?thesis
        unfolding s1 using t0 e0
        by (auto simp: pRetry_attempts_Cons a1 attempts_made_def attempt_events_def retry_outcome_def
              upt_small split: sum.splits)
    next
      case t1: True
      then obtain e1 where e1: "rs 1 = Inl e1" by (auto simp: throttled_def split: sum.splits)
      let ?E2 = "E0 @ [?C, Observer (Next (message e0 @ ''. Will retry...'')), SetTimeout 60000,
                        ?C, Observer (Next (message e1 @ ''. Will retry...'')), SetTimeout 120000]"
      have s2: "?P [120000, 240000] [e0] (t @ ?E1) = ?P [240000] [e0, e1] (t @ ?E2)"
        using t1 e1 by (simp add: pRetry_attempts_Cons a1)
      have a2: "deleteRestApi_attempt apiGateway r (t @ ?E2) =
         (case rs 2 of
            Inr v \<Rightarrow> (Inr v, t @ ?E2 @ [?C])
          | Inl error \<Rightarrow>
              if throttled (rs 2)
              then (Inl (Thrown error), t @ ?E2 @ [?C, Observer (Next (message error @ ''. Will retry...''))])
              else (Inl (AbortError error), t @ ?E2 @ [?C]))"
        by (rule step) (simp add: E0 calls_of_append)
      show ?thesis
      proof (cases "throttled (rs 2)")
        case False
        then show ?thesis
          unfolding s1 s2 using t0 e0 t1 e1
          by (auto simp: pRetry_attempts_Cons a2 attempts_made_def attempt_events_def retry_outcome_def
                upt_small split: sum.splits)
      next
        case t2: True
        then obtain e2 where e2: "rs 2 = Inl e2" by (auto simp: throttled_def split: sum.splits)
        let ?E3 = "E0 @ [?C, Observer (Next (message e0 @ ''. Will retry...'')), SetTimeout 60000,
                        ?C, Observer (Next (message e1 @ ''. Will retry...'')), SetTimeout 120000,
                        ?C, Observer (Next (message e2 @ ''. Will retry...'')), SetTimeout 240000]"
        have s3: "?P [240000] [e0, e1] (t @ ?E2) = ?P [] [e0, e1, e2] (t @ ?E3)"
          using t2 e2 by (simp add: pRetry_attempts_Cons a2)
        have a3: "deleteRestApi_attempt apiGateway r (t @ ?E3) =
           (case rs 3 of
              Inr v \<Rightarrow> (Inr v, t @ ?E3 @ [?C])
            | Inl error \<Rightarrow>
                if throttled (rs 3)
                then (Inl (Thrown error), t @ ?E3 @ [?C, Observer (Next (message error @ ''. Will retry...''))])
                else (Inl (AbortError error), t @ ?E3 @ [?C]))"
          by (rule step) (simp add: E0 calls_of_append)
        show ?thesis
          unfolding s1 s2 s3 using t0 e0 t1 e1 t2 e2
          by (auto simp: pRetry_attempts_Nil a3 attempts_made_def attempt_events_def retry_outcome_def
                upt_small throttled_Inr split: sum.splits option.splits)
      qed
    qed
  qed
qed

subsection \<open>The role protocol\<close>

lemma deleteRolePolicy_for_trace:
  "deleteRolePolicy_for iam R ns t = (res, t') \<Longrightarrow>
   \<exists>k \<le> length ns. t' = t @ map (\<lambda>p. Call (DeleteRolePolicy R p)) (take k ns)
       \<and> ((\<exists>u. res = Inr u) \<longrightarrow> k = length ns)"
proof (induction ns arbitrary: t)
  case Nil
  then show ?case by auto
next
  case (Cons n ns)
  show ?case
  proof (cases "deleteRolePolicy iam t (DeleteRolePolicy R n)")
    case (Inl e)
    with Cons.prems have "t' = t @ [Call (DeleteRolePolicy R n)]" "res = Inl e"
      by (auto simp: promise_def)
    then show ?thesis by (intro exI[of _ 1]) auto
  next
    case (Inr u)
    with Cons.prems have "deleteRolePolicy_for iam R ns (t @ [Call (DeleteRolePolicy R n)]) = (res, t')"
      by (auto simp: promise_def)
    from Cons.IH[OF this] obtain k where "k \<le> length ns"
      "t' = (t @ [Call (DeleteRolePolicy R n)]) @ map (\<lambda>p. Call (DeleteRolePolicy R p)) (take k ns)"
      "(\<exists>u. res = Inr u) \<longrightarrow> k = length ns" by blast
    then show ?thesis by (intro exI[of _ "Suc k"]) auto
  qed
qed

lemma detachRolePolicy_for_trace:
  "detachRolePolicy_for iam R ps t = (res, t') \<Longrightarrow>
   \<exists>k \<le> length ps. t' = t @ map (\<lambda>a. Call (DetachRolePolicy R (PolicyArn a))) (take k ps)
       \<and> ((\<exists>u. res = Inr u) \<longrightarrow> k = length ps)"
proof (induction ps arbitrary: t)
  case Nil
  then show ?case by auto
next
  case (Cons n ns)
  show ?case
  proof (cases "detachRolePolicy iam t (DetachRolePolicy R (PolicyArn n))")
    case (Inl e)
    with Cons.prems have "t' = t @ [Call (DetachRolePolicy R (PolicyArn n))]" "res = Inl e"
      by (auto simp: promise_def)
    then show ?thesis by (intro exI[of _ 1]) auto
  next
    case (Inr u)
    with Cons.prems have "detachRolePolicy_for iam R ns (t @ [Call (DetachRolePolicy R (PolicyArn n))]) = (res, t')"
      by (auto simp: promise_def)
    from Cons.IH[OF this] obtain k where "k \<le> length ns"
      "t' = (t @ [Call (DetachRolePolicy R (PolicyArn n))]) @ map (\<lambda>a. Call (DetachRolePolicy R (PolicyArn a))) (take k ns)"
      "(\<exists>u. res = Inr u) \<longrightarrow> k = length ns" by blast
    then show ?thesis by (intro exI[of _ "Suc k"]) auto
  qed
qed

subsection \<open>The role lister\<close>

lemma startsWith_iff: "startsWith s p \<longleftrightarrow> (\<exists>rest. s = p @ rest)"
proof
  assume "startsWith s p"
  then have "s = p @ drop (length p) s"
    unfolding startsWith_def by (metis append_take_drop_id)
  then show "\<exists>rest. s = p @ rest" ..
next
  assume "\<exists>rest. s = p @ rest"
  then show "startsWith s p" unfolding startsWith_def by auto
qed

lemma user_role_iff:
  "user_role r \<longleftrightarrow>
     (\<forall>rest. RoleName r \<noteq> ''AWSService'' @ rest \<and> RoleName r \<noteq> ''OrganizationAccount'' @ rest)"
  unfolding user_role_def startsWith_iff by blast

lemma set_sortDesc: "set (sortDesc f xs) = set xs"
  by (simp add: sortDesc_def)

text \<open>
  Claim C9. Whatever roles the provider lists, no role the role lister returns has a name
  that begins with \<open>AWSService\<close> or with \<open>OrganizationAccount\<close>, and the lister's result
  is the sort, newest first, of the filtered list: the filter is applied to the listed
  roles before they are sorted.
\<close>

theorem getAllIAMRoles_excludes_system_roles:
  assumes "getAllIAMRoles iam t = Some (Inr roles, t')"
  shows "(\<forall>r \<in> set roles. \<forall>rest. RoleName r \<noteq> ''AWSService'' @ rest
                                 \<and> RoleName r \<noteq> ''OrganizationAccount'' @ rest)
       \<and> (\<exists>listed. getAllIAMRoles_loop iam None [] t = Some (Inr listed, t')
                  \<and> roles = sortDesc CreateDate (filter user_role listed))"
proof -
  from assms obtain listed where
    l: "getAllIAMRoles_loop iam None [] t = Some (Inr listed, t')"
    and r: "roles = sortDesc CreateDate (filter user_role listed)"
    unfolding getAllIAMRoles_def user_role_def
    by (auto split: option.splits prod.splits sum.splits)
  have "\<forall>r \<in> set roles. user_role r"
    using r by (simp add: set_sortDesc)
  then have "\<forall>r \<in> set roles. \<forall>rest. RoleName r \<noteq> ''AWSService'' @ rest
                                 \<and> RoleName r \<noteq> ''OrganizationAccount'' @ rest"
    by (simp add: user_role_iff)
  with l r show ?thesis by blast
qed

lemma example_iam_roles:
  "getAllIAMRoles example_iam [] =
     Some (Inr [item ''deploy-role'' 9, item ''app-role'' 1],
           [Call (ListRoles None 100), Call (ListRoles (Some ''next'') 100)])"
  by (simp add: getAllIAMRoles_def getAllIAMRoles_loop.simps example_iam_def
        promise_def replay_def sortDesc_def startsWith_def item_def)

theorem getAllIAMRoles_excludes_system_roles_witness:
  "getAllIAMRoles example_iam [] =
     Some (Inr [item ''deploy-role'' 9, item ''app-role'' 1],
           [Call (ListRoles None 100), Call (ListRoles (Some ''next'') 100)])
   \<and> \<not> (\<exists>r \<in> set [item ''deploy-role'' 9, item ''app-role'' 1].
          \<exists>rest. RoleName r = ''AWSService'' @ rest \<or> RoleName r = ''OrganizationAccount'' @ rest)"
  using getAllIAMRoles_excludes_system_roles[OF example_iam_roles] example_iam_roles
  by blast

subsection \<open>The distribution protocol\<close>

text \<open>
  Claim C6. For a distribution whose configuration is read (the read returns the
  configuration and its \<open>ETag\<close>), the loop body issues, after the read, exactly one more
  call: when the configuration is enabled, an update that carries the configuration with
  \<open>Enabled\<close> set to false, and no delete; when it is disabled, a delete that carries the
  \<open>ETag\<close> of the read, and no update.
\<close>

theorem cloudfront_item_one_call:
  assumes "getDistributionConfig cloudFront
             (observer (Next (''Fetching '' @ DomainName r @ '' configuration...'')) t)
             (GetDistributionConfig (Id' r)) = Inr (ETag, DistributionConfig)"
  shows "\<exists>E. snd (cloudfront_item cloudFront r t) = t @ E
            \<and> calls_of E =
                [GetDistributionConfig (Id' r),
                 if Enabled DistributionConfig
                 then UpdateDistribution (Id' r) (DistributionConfig\<lparr>Enabled := False\<rparr>) ETag
                 else DeleteDistribution (Id' r) ETag]"
  using assms
  by (auto simp: cloudfront_item_def Let_def promise_def observer_def split: sum.splits)

theorem cloudfront_item_one_call_witness:
  "(\<exists>E. snd (cloudfront_item example_cloudFront (item ''d1'' 1) []) = [] @ E
        \<and> calls_of E =
            [GetDistributionConfig ''d1'',
             UpdateDistribution ''d1'' \<lparr>Enabled = False, Comment = ''site''\<rparr> ''E1''])
   \<and> (\<exists>E. snd (cloudfront_item ok_cloudFront (item ''d2'' 1) []) = [] @ E
        \<and> calls_of E = [GetDistributionConfig ''d2'', DeleteDistribution ''d2'' ''E1''])"
  using cloudfront_item_one_call[of example_cloudFront "item ''d1'' 1" "[]" "''E1''"
          "\<lparr>Enabled = True, Comment = ''site''\<rparr>"]
        cloudfront_item_one_call[of ok_cloudFront "item ''d2'' 1" "[]" "''E1''"
          "\<lparr>Enabled = False, Comment = []\<rparr>"]
  by (simp add: example_cloudFront_def ok_cloudFront_def item_def)

subsection \<open>The role protocol: policies before the role\<close>

lemma deleteRolePolicy_for_succeeds:
  "(\<forall>t' q. deleteRolePolicy iam t' q = Inr ()) \<Longrightarrow>
   deleteRolePolicy_for iam R ns t = (Inr (), t @ map (\<lambda>p. Call (DeleteRolePolicy R p)) ns)"
  by (induction ns arbitrary: t) (simp_all add: promise_def)

lemma detachRolePolicy_for_succeeds:
  "(\<forall>t' q. detachRolePolicy iam t' q = Inr ()) \<Longrightarrow>
   detachRolePolicy_for iam R ps t =
     (Inr (), t @ map (\<lambda>a. Call (DetachRolePolicy R (PolicyArn a))) ps)"
  by (induction ps arbitrary: t) (simp_all add: promise_def)

lemma iamRole_item_issues_all_calls:
  assumes l: "listRolePolicies iam (observer (Next (''Deleting '' @ RoleName r @ ''...'')) t)
               (ListRolePolicies (RoleName r)) = Inr PolicyNames"
    and d: "\<forall>t' q. deleteRolePolicy iam t' q = Inr ()"
    and a: "listAttachedRolePolicies iam
              (observer (Next (''Deleting '' @ RoleName r @ ''...'')) t
                 @ Call (ListRolePolicies (RoleName r))
                 # map (\<lambda>p. Call (DeleteRolePolicy (RoleName r) p)) PolicyNames)
              (ListAttachedRolePolicies (RoleName r)) = Inr AttachedPolicies"
    and e: "\<forall>t' q. detachRolePolicy iam t' q = Inr ()"
  shows "iamRole_item iam r t =
     (deleteRole iam
        (observer (Next (''Deleting '' @ RoleName r @ ''...'')) t
           @ Call (ListRolePolicies (RoleName r))
           # map (\<lambda>p. Call (DeleteRolePolicy (RoleName r) p)) PolicyNames
           @ Call (ListAttachedRolePolicies (RoleName r))
           # map (\<lambda>a. Call (DetachRolePolicy (RoleName r) (PolicyArn a))) AttachedPolicies)
        (DeleteRole (RoleName r)),
      observer (Next (''Deleting '' @ RoleName r @ ''...'')) t
        @ Call (ListRolePolicies (RoleName r))
        # map (\<lambda>p. Call (DeleteRolePolicy (RoleName r) p)) PolicyNames
        @ Call (ListAttachedRolePolicies (RoleName r))
        # map (\<lambda>a. Call (DetachRolePolicy (RoleName r) (PolicyArn a))) AttachedPolicies
        @ [Call (DeleteRole (RoleName r))])"
proof -
  define t0 where "t0 = observer (Next (''Deleting '' @ RoleName r @ ''...'')) t"
  have l': "listRolePolicies iam t0 (ListRolePolicies (RoleName r)) = Inr PolicyNames"
    using l by (simp add: t0_def)
  have a': "listAttachedRolePolicies iam
              (t0 @ Call (ListRolePolicies (RoleName r))
                 # map (\<lambda>p. Call (DeleteRolePolicy (RoleName r) p)) PolicyNames)
              (ListAttachedRolePolicies (RoleName r)) = Inr AttachedPolicies"
    using a by (simp add: t0_def)
  have "iamRole_item iam r t =
     (deleteRole iam
        (t0 @ Call (ListRolePolicies (RoleName r))
           # map (\<lambda>p. Call (DeleteRolePolicy (RoleName r) p)) PolicyNames
           @ Call (ListAttachedRolePolicies (RoleName r))
           # map (\<lambda>a. Call (DetachRolePolicy (RoleName r) (PolicyArn a))) AttachedPolicies)
        (DeleteRole (RoleName r)),
      t0 @ Call (ListRolePolicies (RoleName r))
        # map (\<lambda>p. Call (DeleteRolePolicy (RoleName r) p)) PolicyNames
        @ Call (ListAttachedRolePolicies (RoleName r))
        # map (\<lambda>a. Call (DetachRolePolicy (RoleName r) (PolicyArn a))) AttachedPolicies
        @ [Call (DeleteRole (RoleName r))])"
    unfolding iamRole_item_def Let_def t0_def[symmetric]
    by (simp add: promise_def l' a' deleteRolePolicy_for_succeeds[OF d]
          detachRolePolicy_for_succeeds[OF e])
  then show ?thesis by (simp add: t0_def)
qed

lemma iamRole_item_calls_before_deleteRole:
  assumes run: "iamRole_item iam r t = (res, t')"
    and issued: "DeleteRole (RoleName r) \<in> set (calls_of (drop (length t) t'))"
  shows "\<exists>PolicyNames AttachedPolicies t2.
           listRolePolicies iam (observer (Next (''Deleting '' @ RoleName r @ ''...'')) t)
               (ListRolePolicies (RoleName r)) = Inr PolicyNames
         \<and> t2 = observer (Next (''Deleting '' @ RoleName r @ ''...'')) t
                  @ Call (ListRolePolicies (RoleName r))
                  # map (\<lambda>p. Call (DeleteRolePolicy (RoleName r) p)) PolicyNames
         \<and> listAttachedRolePolicies iam t2 (ListAttachedRolePolicies (RoleName r)) = Inr AttachedPolicies
         \<and> t' = t2 @ Call (ListAttachedRolePolicies (RoleName r))
                  # map (\<lambda>a. Call (DetachRolePolicy (RoleName r) (PolicyArn a))) AttachedPolicies
                  @ [Call (DeleteRole (RoleName r))]"
proof -
  let ?R = "RoleName r"
  let ?t0 = "observer (Next (''Deleting '' @ ?R @ ''...'')) t"
  have t0: "?t0 = t @ [Observer (Next (''Deleting '' @ ?R @ ''...''))]" by (simp add: observer_def)
  show ?thesis
  proof (cases "listRolePolicies iam ?t0 (ListRolePolicies ?R)")
    case (Inl e)
    with run have "t' = ?t0 @ [Call (ListRolePolicies ?R)]"
      by (auto simp: iamRole_item_def Let_def promise_def)
    with issued t0 show ?thesis by simp
  next
    case (Inr PolicyNames)
    let ?t1 = "?t0 @ [Call (ListRolePolicies ?R)]"
    obtain res2 t2 where d: "deleteRolePolicy_for iam ?R PolicyNames ?t1 = (res2, t2)"
      by (cases "deleteRolePolicy_for iam ?R PolicyNames ?t1")
    from deleteRolePolicy_for_trace[OF d] obtain k where k: "k \<le> length PolicyNames"
      "t2 = ?t1 @ map (\<lambda>p. Call (DeleteRolePolicy ?R p)) (take k PolicyNames)"
      "(\<exists>u. res2 = Inr u) \<longrightarrow> k = length PolicyNames" by blast
    show ?thesis
    proof (cases res2)
      case (Inl e)
      with run Inr d have "t' = t2"
        by (auto simp: iamRole_item_def Let_def promise_def)
      with issued t0 k(2) show ?thesis
        by (auto simp: calls_of_append calls_of_map)
    next
      case u2: (Inr u)
      with k have t2: "t2 = ?t0 @ Call (ListRolePolicies ?R) # map (\<lambda>p. Call (DeleteRolePolicy ?R p)) PolicyNames"
        by simp
      show ?thesis
      proof (cases "listAttachedRolePolicies iam t2 (ListAttachedRolePolicies ?R)")
        case (Inl e)
        with run Inr d u2 have "t' = t2 @ [Call (ListAttachedRolePolicies ?R)]"
          by (auto simp: iamRole_item_def Let_def promise_def)
        with issued t0 t2 show ?thesis
          by (auto simp: calls_of_append calls_of_map)
      next
        case a: (Inr AttachedPolicies)
        let ?t3 = "t2 @ [Call (ListAttachedRolePolicies ?R)]"
        obtain res4 t4 where e: "detachRolePolicy_for iam ?R AttachedPolicies ?t3 = (res4, t4)"
          by (cases "detachRolePolicy_for iam ?R AttachedPolicies ?t3")
        from detachRolePolicy_for_trace[OF e] obtain j where j: "j \<le> length AttachedPolicies"
          "t4 = ?t3 @ map (\<lambda>a. Call (DetachRolePolicy ?R (PolicyArn a))) (take j AttachedPolicies)"
          "(\<exists>u. res4 = Inr u) \<longrightarrow> j = length AttachedPolicies" by blast
        show ?thesis
        proof (cases res4)
          case (Inl e')
          with run Inr d u2 a e have "t' = t4"
            by (auto simp: iamRole_item_def Let_def promise_def)
          with issued t0 t2 j(2) show ?thesis
            by (auto simp: calls_of_append calls_of_map)
        next
          case u4: (Inr u')
          with j have t4: "t4 = ?t3 @ map (\<lambda>a. Call (DetachRolePolicy ?R (PolicyArn a))) AttachedPolicies"
            by simp
          from run Inr d u2 a e u4 have "t' = t4 @ [Call (DeleteRole ?R)]"
            by (auto simp: iamRole_item_def Let_def promise_def)
          with t4 t2 Inr a show ?thesis by simp
        qed
      qed
    qed
  qed
qed

text \<open>
  Claim C7. When the two listings of a role return \<open>I\<close> inline policy names and \<open>A\<close>
  attachments and the deletes and detaches succeed, the loop body for the role makes, in
  this order, the listing of the inline policies, one inline-policy delete for each of
  the \<open>I\<close> names, the listing of the attached policies, one detach for each of the \<open>A\<close>
  attachments, and then the role delete, which is the last event. And whenever the loop
  body issues the role delete at all, these are the calls it has made before it.
\<close>

theorem iamRole_item_clears_policies_first:
  "(listRolePolicies iam (observer (Next (''Deleting '' @ RoleName r @ ''...'')) t)
        (ListRolePolicies (RoleName r)) = Inr PolicyNames
     \<and> (\<forall>t' q. deleteRolePolicy iam t' q = Inr ())
     \<and> listAttachedRolePolicies iam
          (observer (Next (''Deleting '' @ RoleName r @ ''...'')) t
             @ Call (ListRolePolicies (RoleName r))
             # map (\<lambda>p. Call (DeleteRolePolicy (RoleName r) p)) PolicyNames)
          (ListAttachedRolePolicies (RoleName r)) = Inr AttachedPolicies
     \<and> (\<forall>t' q. detachRolePolicy iam t' q = Inr ())
     \<longrightarrow>
     iamRole_item iam r t =
       (deleteRole iam
          (observer (Next (''Deleting '' @ RoleName r @ ''...'')) t
             @ Call (ListRolePolicies (RoleName r))
             # map (\<lambda>p. Call (DeleteRolePolicy (RoleName r) p)) PolicyNames
             @ Call (ListAttachedRolePolicies (RoleName r))
             # map (\<lambda>a. Call (DetachRolePolicy (RoleName r) (PolicyArn a))) AttachedPolicies)
          (DeleteRole (RoleName r)),
        observer (Next (''Deleting '' @ RoleName r @ ''...'')) t
          @ Call (ListRolePolicies (RoleName r))
          # map (\<lambda>p. Call (DeleteRolePolicy (RoleName r) p)) PolicyNames
          @ Call (ListAttachedRolePolicies (RoleName r))
          # map (\<lambda>a. Call (DetachRolePolicy (RoleName r) (PolicyArn a))) AttachedPolicies
          @ [Call (DeleteRole (RoleName r))]))
   \<and> (iamRole_item iam r t = (res, t')
       \<and> DeleteRole (RoleName r) \<in> set (calls_of (drop (length t) t'))
     \<longrightarrow>
     (\<exists>listed attached t2.
         listRolePolicies iam (observer (Next (''Deleting '' @ RoleName r @ ''...'')) t)
             (ListRolePolicies (RoleName r)) = Inr listed
       \<and> t2 = observer (Next (''Deleting '' @ RoleName r @ ''...'')) t
                @ Call (ListRolePolicies (RoleName r))
                # map (\<lambda>p. Call (DeleteRolePolicy (RoleName r) p)) listed
       \<and> listAttachedRolePolicies iam t2 (ListAttachedRolePolicies (RoleName r)) = Inr attached
       \<and> t' = t2 @ Call (ListAttachedRolePolicies (RoleName r))
                # map (\<lambda>a. Call (DetachRolePolicy (RoleName r) (PolicyArn a))) attached
                @ [Call (DeleteRole (RoleName r))]))"
  using iamRole_item_issues_all_calls[of iam r t PolicyNames AttachedPolicies]
        iamRole_item_calls_before_deleteRole[of iam r t res t']
  by blast

theorem iamRole_item_clears_policies_first_witness:
  "iamRole_item example_iam (item ''app-role'' 1) [] =
     (Inr (),
      [Observer (Next ''Deleting app-role...''),
       Call (ListRolePolicies ''app-role''),
       Call (DeleteRolePolicy ''app-role'' ''inline-a''),
       Call (DeleteRolePolicy ''app-role'' ''inline-b''),
       Call (ListAttachedRolePolicies ''app-role''),
       Call (DetachRolePolicy ''app-role'' ''arn:aws:iam::aws:policy/ReadOnly''),
       Call (DeleteRole ''app-role'')])
   \<and> (\<exists>listed (attached :: AttachedPolicy list).
         listRolePolicies example_iam [Observer (Next ''Deleting app-role...'')]
             (ListRolePolicies ''app-role'') = Inr listed
       \<and> length listed = 2 \<and> length attached = 1
       \<and> snd (iamRole_item example_iam (item ''app-role'' 1) []) =
           [Observer (Next ''Deleting app-role...''), Call (ListRolePolicies ''app-role'')]
             @ map (\<lambda>p. Call (DeleteRolePolicy ''app-role'' p)) listed
             @ Call (ListAttachedRolePolicies ''app-role'')
             # map (\<lambda>a. Call (DetachRolePolicy ''app-role'' (PolicyArn a))) attached
             @ [Call (DeleteRole ''app-role'')])"
proof -
  let ?trace = "[Observer (Next ''Deleting app-role...''),
       Call (ListRolePolicies ''app-role''),
       Call (DeleteRolePolicy ''app-role'' ''inline-a''),
       Call (DeleteRolePolicy ''app-role'' ''inline-b''),
       Call (ListAttachedRolePolicies ''app-role''),
       Call (DetachRolePolicy ''app-role'' ''arn:aws:iam::aws:policy/ReadOnly''),
       Call (DeleteRole ''app-role'')]"
  note th = iamRole_item_clears_policies_first[of example_iam "item ''app-role'' 1" "[]"
      "[''inline-a'', ''inline-b'']"
      "[\<lparr>PolicyName = ''ReadOnly'', PolicyArn = ''arn:aws:iam::aws:policy/ReadOnly''\<rparr>]"
      "Inr ()" ?trace]
  have m: "listRolePolicies example_iam t q = Inr [''inline-a'', ''inline-b'']"
    "listAttachedRolePolicies example_iam t q =
       Inr [\<lparr>PolicyName = ''ReadOnly'', PolicyArn = ''arn:aws:iam::aws:policy/ReadOnly''\<rparr>]"
    "deleteRolePolicy example_iam t q = Inr ()" "detachRolePolicy example_iam t q = Inr ()"
    "deleteRole example_iam t q = Inr ()" for t q
    by (simp_all add: example_iam_def accept_def)
  have run: "iamRole_item example_iam (item ''app-role'' 1) [] = (Inr (), ?trace)"
    using th[THEN conjunct1] by (simp add: m item_fields observer_def)
  have "\<exists>listed attached t2.
         listRolePolicies example_iam [Observer (Next ''Deleting app-role...'')]
             (ListRolePolicies ''app-role'') = Inr listed
       \<and> t2 = [Observer (Next ''Deleting app-role...''), Call (ListRolePolicies ''app-role'')]
                @ map (\<lambda>p. Call (DeleteRolePolicy ''app-role'' p)) listed
       \<and> listAttachedRolePolicies example_iam t2 (ListAttachedRolePolicies ''app-role'') = Inr attached
       \<and> ?trace = t2 @ Call (ListAttachedRolePolicies ''app-role'')
                # map (\<lambda>a. Call (DetachRolePolicy ''app-role'' (PolicyArn a))) attached
                @ [Call (DeleteRole ''app-role'')]"
    using th[THEN conjunct2] run by (simp add: item_fields observer_def)
  then obtain listed attached where
    f1: "listRolePolicies example_iam [Observer (Next ''Deleting app-role...'')]
             (ListRolePolicies ''app-role'') = Inr listed"
    and f2: "listAttachedRolePolicies example_iam
        ([Observer (Next ''Deleting app-role...''), Call (ListRolePolicies ''app-role'')]
                @ map (\<lambda>p. Call (DeleteRolePolicy ''app-role'' p)) listed)
        (ListAttachedRolePolicies ''app-role'') = Inr attached"
    and f3: "?trace = ([Observer (Next ''Deleting app-role...''), Call (ListRolePolicies ''app-role'')]
                @ map (\<lambda>p. Call (DeleteRolePolicy ''app-role'' p)) listed)
              @ Call (ListAttachedRolePolicies ''app-role'')
                # map (\<lambda>a. Call (DetachRolePolicy ''app-role'' (PolicyArn a))) attached
                @ [Call (DeleteRole ''app-role'')]"
    by blast
  have g1: "length listed = 2" using f1 by (auto simp: m)
  have g2: "length attached = 1" using f2 by (auto simp: m)
  have g3: "snd (iamRole_item example_iam (item ''app-role'' 1) []) =
           [Observer (Next ''Deleting app-role...''), Call (ListRolePolicies ''app-role'')]
             @ map (\<lambda>p. Call (DeleteRolePolicy ''app-role'' p)) listed
             @ Call (ListAttachedRolePolicies ''app-role'')
             # map (\<lambda>a. Call (DetachRolePolicy ''app-role'' (PolicyArn a))) attached
             @ [Call (DeleteRole ''app-role'')]"
    using f3 by (simp add: run)
  show ?thesis
    by (rule conjI, rule run, rule exI[where x = listed], rule exI[where x = attached],
        intro conjI f1 g1 g2 g3)
qed

subsection \<open>The retry wrapper around the API delete\<close>

lemma mainError_same_message:
  assumes "message e0 = message e3" and "message e1 = message e3" and "message e2 = message e3"
  shows "mainError [e0, e1, e2, e3] = Some e3"
  using assms by (simp add: mainError_def Let_def)

text \<open>
  Claim C2, with the number of attempts the program configures and the error the retry
  package rejects with. Let the provider answer the successive delete attempts with
  \<open>rs 0\<close>, \<open>rs 1\<close>, ... The loop body for an API attempts the delete until an answer is
  not throttled, and four times at most: a throttled answer is followed by the
  notification of its message and, unless it was the fourth attempt, by a delay of 60,
  120, then 240 seconds and another attempt; any other answer ends the attempts at once.
  The outcome is the last answer, unless all four attempts were throttled: then it is the
  main error of the four errors, which is the last one when their messages are the same.
\<close>

theorem apiGateway_item_retries:
  assumes "answers_calls (deleteRestApi apiGateway) t rs"
  shows "apiGateway_item apiGateway r t =
           (retry_outcome rs,
            t @ Observer (Next (''Deleting '' @ name r @ ''...''))
              # concat (map (attempt_events (id' r) rs) [0..<attempts_made rs]))
       \<and> 1 \<le> attempts_made rs \<and> attempts_made rs \<le> 4
       \<and> (attempts_made rs < 4 \<or> \<not> throttled (rs 3) \<longrightarrow>
            retry_outcome rs = rs (attempts_made rs - 1))
       \<and> (\<forall>e0 e1 e2 e3.
            rs 0 = Inl e0 \<and> rs 1 = Inl e1 \<and> rs 2 = Inl e2 \<and> rs 3 = Inl e3
            \<and> attempts_made rs = 4 \<and> throttled (rs 3)
            \<and> message e0 = message e3 \<and> message e1 = message e3 \<and> message e2 = message e3
            \<longrightarrow> retry_outcome rs = Inl e3)"
proof -
  have "apiGateway_item apiGateway r t =
      pRetry_attempts (deleteRestApi_attempt apiGateway r) [60000, 120000, 240000] []
        (t @ [Observer (Next (''Deleting '' @ name r @ ''...''))])"
    by (simp add: apiGateway_item_def pRetry_def timeouts_3 observer_def Let_def)
  also have "\<dots> = (retry_outcome rs,
            t @ [Observer (Next (''Deleting '' @ name r @ ''...''))]
              @ concat (map (attempt_events (id' r) rs) [0..<attempts_made rs]))"
    using assms by (rule deleteRestApi_retries) simp
  finally have run: "apiGateway_item apiGateway r t =
           (retry_outcome rs,
            t @ Observer (Next (''Deleting '' @ name r @ ''...''))
              # concat (map (attempt_events (id' r) rs) [0..<attempts_made rs]))"
    by simp
  have bound: "1 \<le> attempts_made rs \<and> attempts_made rs \<le> 4"
    by (simp add: attempts_made_def)
  have last: "attempts_made rs < 4 \<or> \<not> throttled (rs 3) \<longrightarrow>
            retry_outcome rs = rs (attempts_made rs - 1)"
    by (auto simp: retry_outcome_def)
  have same: "\<forall>e0 e1 e2 e3.
            rs 0 = Inl e0 \<and> rs 1 = Inl e1 \<and> rs 2 = Inl e2 \<and> rs 3 = Inl e3
            \<and> attempts_made rs = 4 \<and> throttled (rs 3)
            \<and> message e0 = message e3 \<and> message e1 = message e3 \<and> message e2 = message e3
            \<longrightarrow> retry_outcome rs = Inl e3"
    by (auto simp: retry_outcome_def mainError_same_message)
  from run bound last same show ?thesis by blast
qed

lemma throttling_answers:
  "answers_calls (deleteRestApi (throttling_apiGateway n)) []
     (\<lambda>k. if k < n then Inl (AWSError ''TooManyRequestsException'' ''Too Many Requests'') else Inr ())"
  by (simp add: answers_calls_def throttling_apiGateway_def)

theorem apiGateway_item_retries_witness:
  "apiGateway_item (throttling_apiGateway 2) (item ''api'' 1) [] =
     (Inr (),
      [Observer (Next ''Deleting api...''),
       Call (DeleteRestApi ''api''),
       Observer (Next ''Too Many Requests. Will retry...''),
       SetTimeout 60000,
       Call (DeleteRestApi ''api''),
       Observer (Next ''Too Many Requests. Will retry...''),
       SetTimeout 120000,
       Call (DeleteRestApi ''api'')])
   \<and> apiGateway_item (throttling_apiGateway 4) (item ''api'' 1) [] =
     (Inl (AWSError ''TooManyRequestsException'' ''Too Many Requests''),
      [Observer (Next ''Deleting api...''),
       Call (DeleteRestApi ''api''),
       Observer (Next ''Too Many Requests. Will retry...''),
       SetTimeout 60000,
       Call (DeleteRestApi ''api''),
       Observer (Next ''Too Many Requests. Will retry...''),
       SetTimeout 120000,
       Call (DeleteRestApi ''api''),
       Observer (Next ''Too Many Requests. Will retry...''),
       SetTimeout 240000,
       Call (DeleteRestApi ''api''),
       Observer (Next ''Too Many Requests. Will retry...'')])"
  using apiGateway_item_retries[OF throttling_answers, of 2 "item ''api'' 1"]
        apiGateway_item_retries[OF throttling_answers, of 4 "item ''api'' 1"]
  by (simp add: attempts_made_def throttled_def attempt_events_def upt_small item_fields
        retry_outcome_def mainError_def Let_def)

text \<open>
  Two parts of claim C2 fail together when the provider throttles four calls with the
  messages \<open>Rate exceeded\<close>, \<open>Rate exceeded\<close>, \<open>Slow down\<close> and \<open>Limit reached\<close>: a fourth
  attempt is made, 240 seconds after the third, and the error the wrapper rejects with
  is not the final one but the second, whose message occurred most often.
\<close>

theorem apiGateway_item_fourth_attempt:
  "apiGateway_item
     (throttling_with [''Rate exceeded'', ''Rate exceeded'', ''Slow down'', ''Limit reached''])
     (item ''api'' 1) [] =
     (Inl (AWSError ''TooManyRequestsException'' ''Rate exceeded''),
      [Observer (Next ''Deleting api...''),
       Call (DeleteRestApi ''api''),
       Observer (Next ''Rate exceeded. Will retry...''),
       SetTimeout 60000,
       Call (DeleteRestApi ''api''),
       Observer (Next ''Rate exceeded. Will retry...''),
       SetTimeout 120000,
       Call (DeleteRestApi ''api''),
       Observer (Next ''Slow down. Will retry...''),
       SetTimeout 240000,
       Call (DeleteRestApi ''api''),
       Observer (Next ''Limit reached. Will retry...'')])
   \<and> length (calls_of (snd (apiGateway_item
        (throttling_with [''Rate exceeded'', ''Rate exceeded'', ''Slow down'', ''Limit reached''])
        (item ''api'' 1) []))) = 4
   \<and> timeouts_of (snd (apiGateway_item
        (throttling_with [''Rate exceeded'', ''Rate exceeded'', ''Slow down'', ''Limit reached''])
        (item ''api'' 1) [])) = [60000, 120000, 240000]
   \<and> deleteRestApi
        (throttling_with [''Rate exceeded'', ''Rate exceeded'', ''Slow down'', ''Limit reached''])
        [Call (DeleteRestApi ''api''), Call (DeleteRestApi ''api''), Call (DeleteRestApi ''api'')]
        (DeleteRestApi ''api'')
       = Inl (AWSError ''TooManyRequestsException'' ''Limit reached'')"
  by (simp add: apiGateway_item_def pRetry_def timeouts_3 pRetry_attempts_Cons pRetry_attempts_Nil
        deleteRestApi_attempt_def throttling_with_def promise_def observer_def item_def
        mainError_def Let_def)

subsection \<open>The bucket protocol\<close>





subsection \<open>Failures of a task\<close>

text \<open>
  Claim C3, at an input where it fails. When the delete of the first of two selected
  functions is rejected, the second is not attempted, but the observer is told nothing:
  the trace holds no \<open>Error\<close> notification and the procedure's promise is rejected with
  the error. The distribution task does tell the observer, with the error's message, when
  its delete call is rejected.
\<close>

theorem lambda_task_failure_not_signalled:
  "lambda_task failing_lambda [item ''a'' 2, item ''b'' 1] [] =
     (Inl (AWSError ''ServiceException'' ''Internal failure''),
      [Observer (Next ''Deleting a...''), Call (DeleteFunction ''a'')])
   \<and> cloudfront_task failing_cloudFront [item ''d'' 2, item ''e'' 1] [] =
     (Inr (),
      [Observer (Next ''Fetching d configuration...''),
       Call (GetDistributionConfig ''d''),
       Observer (Next ''Deleting d...''),
       Call (DeleteDistribution ''d'' ''E1''),
       Observer (Error ''The distribution is not disabled'')])"
  by (simp add: lambda_task_def lambda_item_def failing_lambda_def reject_def
        cloudfront_task_def cloudfront_item_def failing_cloudFront_def
        promise_def observer_def item_def)

subsection \<open>What the listers return\<close>

lemma getAllFunctions_pages:
  assumes "paged (\<lambda>p. \<not> falsy (snd p)) ps" and "serves (listFunctions lambda) t ps"
  shows "getAllFunctions lambda t =
           Some (Inr (sortDesc LastModified (concat (map fst ps))),
                 t @ map (\<lambda>m. Call (ListFunctions m 10)) (None # map snd (butlast ps)))"
proof -
  have "getAllFunctions_loop lambda None [] t =
     Some (Inr ([] @ concat (map fst ps)),
           t @ map (\<lambda>m. Call (ListFunctions m 10)) (None # map snd (butlast ps)))"
    using assms by (intro getAllFunctions_loop_pages) (auto simp: paged_def)
  then show ?thesis by (simp add: getAllFunctions_def)
qed

lemma getAllLogGroups_pages:
  assumes "paged (\<lambda>p. \<not> falsy (snd p)) ps" and "serves (describeLogGroups cloudWatchLogs) t ps"
  shows "getAllLogGroups cloudWatchLogs t =
           Some (Inr (sortDesc creationTime (concat (map fst ps))),
                 t @ map (\<lambda>m. Call (DescribeLogGroups ''/aws/'' 50 m)) (None # map snd (butlast ps)))"
proof -
  have "getAllLogGroups_loop cloudWatchLogs None [] t =
     Some (Inr ([] @ concat (map fst ps)),
           t @ map (\<lambda>m. Call (DescribeLogGroups ''/aws/'' 50 m)) (None # map snd (butlast ps)))"
    using assms by (intro getAllLogGroups_loop_pages) (auto simp: paged_def)
  then show ?thesis by (simp add: getAllLogGroups_def)
qed

lemma getAllApiGateways_pages:
  assumes "paged (\<lambda>p. \<not> falsy (snd p)) ps" and "serves (getRestApis apiGateway) t ps"
  shows "getAllApiGateways apiGateway t =
           Some (Inr (sortDesc createdDate (concat (map fst ps))),
                 t @ map (\<lambda>m. Call (GetRestApis m 10)) (None # map snd (butlast ps)))"
proof -
  have "getAllApiGateways_loop apiGateway None [] t =
     Some (Inr ([] @ concat (map fst ps)),
           t @ map (\<lambda>m. Call (GetRestApis m 10)) (None # map snd (butlast ps)))"
    using assms by (intro getAllApiGateways_loop_pages) (auto simp: paged_def)
  then show ?thesis by (simp add: getAllApiGateways_def)
qed

lemma getAllBuckets_page:
  assumes "listBuckets s3 t ListBuckets = Inr Buckets"
  shows "getAllBuckets s3 t = (Inr (sortDesc CreationDate Buckets), t @ [Call ListBuckets])"
  using assms by (simp add: getAllBuckets_def promise_def)

lemma getAllCloudFrontDistributions_pages:
  assumes "paged fst ps" and "serves (listDistributions cloudFront) t ps"
  shows "getAllCloudFrontDistributions cloudFront t =
           Some (Inr (sortDesc LastModifiedTime (concat (map (\<lambda>p. fst (snd p)) ps))),
                 t @ map (\<lambda>m. Call (ListDistributions m ''20''))
                       (None # map (\<lambda>p. snd (snd p)) (butlast ps)))"
proof -
  have "getAllCloudFrontDistributions_loop cloudFront None [] t =
     Some (Inr ([] @ concat (map (\<lambda>p. fst (snd p)) ps)),
           t @ map (\<lambda>m. Call (ListDistributions m ''20''))
                 (None # map (\<lambda>p. snd (snd p)) (butlast ps)))"
    using assms by (intro getAllCloudFrontDistributions_loop_pages) (auto simp: paged_def)
  then show ?thesis by (simp add: getAllCloudFrontDistributions_def)
qed

lemma getAllIAMRoles_pages:
  assumes "paged (\<lambda>p. fst (snd p)) ps" and "serves (listRoles iam) t ps"
  shows "getAllIAMRoles iam t =
           Some (Inr (sortDesc CreateDate (filter user_role (concat (map (\<lambda>p. snd (snd p)) ps)))),
                 t @ map (\<lambda>m. Call (ListRoles m 100)) (None # map fst (butlast ps)))"
proof -
  have "getAllIAMRoles_loop iam None [] t =
     Some (Inr ([] @ concat (map (\<lambda>p. snd (snd p)) ps)),
           t @ map (\<lambda>m. Call (ListRoles m 100)) (None # map fst (butlast ps)))"
    using assms by (intro getAllIAMRoles_loop_pages) (auto simp: paged_def)
  then show ?thesis by (simp add: getAllIAMRoles_def user_role_def[abs_def])
qed

lemma replay_serves: "serves (replay ps) [] ps"
  by (simp add: serves_def replay_def)

lemma replay_answers:
  "answers (replay ps) []
     (\<lambda>k. if k < length ps then Inr (ps ! k)
           else Inl (AWSError ''ServiceUnavailable'' ''no more answers''))"
  by (simp add: answers_def replay_def)

lemma replay_objects_answers:
  "answers_objects (s3\<lparr>listObjects := replay_objects ps\<rparr>) []
     (\<lambda>k. if k < length ps then Inr (ps ! k)
           else Inl (AWSError ''ServiceUnavailable'' ''no more answers''))"
  by (simp add: answers_objects_def replay_objects_def)

text \<open>
  Claim C4, with the two restrictions the listers make. For every sequence of provider
  pages of which only the last carries no continuation signal, each paginated lister
  requests page after page, from no cursor and then from the cursor of the page before,
  until that last page, and returns the items of all of them, newest first. The log
  groups are requested with the name prefix \<open>/aws/\<close>, so the pages are the provider's
  pages for that prefix; the role lister leaves out the roles whose name starts with
  \<open>AWSService\<close> or \<open>OrganizationAccount\<close>; the bucket lister makes one call and returns
  its page.
\<close>

theorem listers_return_every_page:
  "(paged (\<lambda>p. \<not> falsy (snd p)) ps1 \<and> serves (listFunctions lambda) t1 ps1 \<longrightarrow>
      getAllFunctions lambda t1 =
        Some (Inr (sortDesc LastModified (concat (map fst ps1))),
              t1 @ map (\<lambda>m. Call (ListFunctions m 10)) (None # map snd (butlast ps1))))
   \<and> (paged (\<lambda>p. \<not> falsy (snd p)) ps2 \<and> serves (describeLogGroups cloudWatchLogs) t2 ps2 \<longrightarrow>
      getAllLogGroups cloudWatchLogs t2 =
        Some (Inr (sortDesc creationTime (concat (map fst ps2))),
              t2 @ map (\<lambda>m. Call (DescribeLogGroups ''/aws/'' 50 m)) (None # map snd (butlast ps2))))
   \<and> (paged (\<lambda>p. \<not> falsy (snd p)) ps3 \<and> serves (getRestApis apiGateway) t3 ps3 \<longrightarrow>
      getAllApiGateways apiGateway t3 =
        Some (Inr (sortDesc createdDate (concat (map fst ps3))),
              t3 @ map (\<lambda>m. Call (GetRestApis m 10)) (None # map snd (butlast ps3))))
   \<and> (listBuckets s3 t4 ListBuckets = Inr Buckets \<longrightarrow>
      getAllBuckets s3 t4 = (Inr (sortDesc CreationDate Buckets), t4 @ [Call ListBuckets]))
   \<and> (paged fst ps5 \<and> serves (listDistributions cloudFront) t5 ps5 \<longrightarrow>
      getAllCloudFrontDistributions cloudFront t5 =
        Some (Inr (sortDesc LastModifiedTime (concat (map (\<lambda>p. fst (snd p)) ps5))),
              t5 @ map (\<lambda>m. Call (ListDistributions m ''20''))
                     (None # map (\<lambda>p. snd (snd p)) (butlast ps5))))
   \<and> (paged (\<lambda>p. fst (snd p)) ps6 \<and> serves (listRoles iam) t6 ps6 \<longrightarrow>
      getAllIAMRoles iam t6 =
        Some (Inr (sortDesc CreateDate (filter user_role (concat (map (\<lambda>p. snd (snd p)) ps6)))),
              t6 @ map (\<lambda>m. Call (ListRoles m 100)) (None # map fst (butlast ps6))))"
  using getAllFunctions_pages getAllLogGroups_pages getAllApiGateways_pages getAllBuckets_page
    getAllCloudFrontDistributions_pages getAllIAMRoles_pages
  by blast

theorem listers_return_every_page_witness:
  "getAllFunctions example_lambda [] =
     Some (Inr [item ''b'' 3, item ''c'' 2, item ''a'' 1],
           [Call (ListFunctions None 10), Call (ListFunctions (Some ''next'') 10)])
   \<and> getAllLogGroups example_cloudWatchLogs [] =
     Some (Inr [item ''/aws/lambda/b'' 2, item ''/aws/lambda/a'' 1],
           [Call (DescribeLogGroups ''/aws/'' 50 None),
            Call (DescribeLogGroups ''/aws/'' 50 (Some ''next''))])
   \<and> getAllApiGateways example_apiGateway [] =
     Some (Inr [item ''b'' 2, item ''a'' 1],
           [Call (GetRestApis None 10), Call (GetRestApis (Some ''next'') 10)])
   \<and> getAllBuckets example_s3 [] =
     (Inr [item ''logs'' 2, item ''assets'' 1], [Call ListBuckets])
   \<and> getAllCloudFrontDistributions example_cloudFront [] =
     Some (Inr [item ''b'' 2, item ''a'' 1],
           [Call (ListDistributions None ''20''), Call (ListDistributions (Some ''next'') ''20'')])
   \<and> getAllIAMRoles example_iam [] =
     Some (Inr [item ''deploy-role'' 9, item ''app-role'' 1],
           [Call (ListRoles None 100), Call (ListRoles (Some ''next'') 100)])"
proof -
  have s1: "serves (listFunctions example_lambda) []
              [([item ''a'' 1, item ''b'' 3], Some ''next''), ([item ''c'' 2], None)]"
    using replay_serves by (simp add: example_lambda_def)
  have s2: "serves (describeLogGroups example_cloudWatchLogs) []
              [([item ''/aws/lambda/a'' 1], Some ''next''), ([item ''/aws/lambda/b'' 2], None)]"
    using replay_serves by (simp add: example_cloudWatchLogs_def)
  have s3: "serves (getRestApis example_apiGateway) []
              [([item ''a'' 1], Some ''next''), ([item ''b'' 2], None)]"
    using replay_serves by (simp add: example_apiGateway_def)
  have s4: "listBuckets example_s3 [] ListBuckets = Inr [item ''assets'' 1, item ''logs'' 2]"
    by (simp add: example_s3_def replay_def)
  have s5: "serves (listDistributions example_cloudFront) []
              [(True, [item ''a'' 1], Some ''next''), (False, [item ''b'' 2], None)]"
    using replay_serves by (simp add: example_cloudFront_def)
  have s6: "serves (listRoles example_iam) []
              [(Some ''next'', True, [item ''AWSServiceRoleForSupport'' 5, item ''app-role'' 1]),
               (None, False, [item ''OrganizationAccountAccessRole'' 3, item ''deploy-role'' 9])]"
    using replay_serves by (simp add: example_iam_def)
  have ts [simp]: "LastModified (item n d) = d" "creationTime (item n d) = d"
    "createdDate (item n d) = d" "CreationDate (item n d) = d"
    "LastModifiedTime (item n d) = d" "CreateDate (item n d) = d" for n d
    by (simp_all add: item_def)
  show ?thesis
    using listers_return_every_page[of
        "[([item ''a'' 1, item ''b'' 3], Some ''next''), ([item ''c'' 2], None)]" example_lambda "[]"
        "[([item ''/aws/lambda/a'' 1], Some ''next''), ([item ''/aws/lambda/b'' 2], None)]"
        example_cloudWatchLogs "[]"
        "[([item ''a'' 1], Some ''next''), ([item ''b'' 2], None)]" example_apiGateway "[]"
        example_s3 "[]" "[item ''assets'' 1, item ''logs'' 2]"
        "[(True, [item ''a'' 1], Some ''next''), (False, [item ''b'' 2], None)]" example_cloudFront "[]"
        "[(Some ''next'', True, [item ''AWSServiceRoleForSupport'' 5, item ''app-role'' 1]),
          (None, False, [item ''OrganizationAccountAccessRole'' 3, item ''deploy-role'' 9])]"
        example_iam "[]"]
      s1 s2 s3 s4 s5 s6
    by (simp add: paged_def falsy_def sortDesc_def user_role_def startsWith_def item_fields)
qed

text \<open>
  The listers do not return every existing resource, as claim C4 has it. A log group
  whose name does not start with \<open>/aws/\<close> is not in the result of the log-group lister,
  which asks the provider for that prefix only; and a role the provider lists under a
  name that starts with \<open>AWSService\<close> is not in the result of the role lister.
\<close>

theorem listers_leave_resources_out:
  "getAllLogGroups (logs_holding [item ''/aws/lambda/api'' 2, item ''/custom/app'' 1]) [] =
     Some (Inr [item ''/aws/lambda/api'' 2], [Call (DescribeLogGroups ''/aws/'' 50 None)])
   \<and> item ''/custom/app'' 1 \<notin> set [item ''/aws/lambda/api'' 2]
   \<and> listRoles example_iam [] (ListRoles None 100) =
       Inr (Some ''next'', True, [item ''AWSServiceRoleForSupport'' 5, item ''app-role'' 1])
   \<and> getAllIAMRoles example_iam [] =
       Some (Inr [item ''deploy-role'' 9, item ''app-role'' 1],
             [Call (ListRoles None 100), Call (ListRoles (Some ''next'') 100)])
   \<and> item ''AWSServiceRoleForSupport'' 5 \<notin> set [item ''deploy-role'' 9, item ''app-role'' 1]"
proof -
  have "getAllLogGroups (logs_holding [item ''/aws/lambda/api'' 2, item ''/custom/app'' 1]) [] =
     Some (Inr [item ''/aws/lambda/api'' 2], [Call (DescribeLogGroups ''/aws/'' 50 None)])"
    by (simp add: getAllLogGroups_def getAllLogGroups_loop.simps logs_holding_def promise_def
          sortDesc_def falsy_def startsWith_def item_def)
  moreover have "item ''/custom/app'' 1 \<notin> set [item ''/aws/lambda/api'' 2]"
    by (simp add: item_def)
  moreover have "listRoles example_iam [] (ListRoles None 100) =
       Inr (Some ''next'', True, [item ''AWSServiceRoleForSupport'' 5, item ''app-role'' 1])"
    by (simp add: example_iam_def replay_def)
  moreover have "item ''AWSServiceRoleForSupport'' 5 \<notin> set [item ''deploy-role'' 9, item ''app-role'' 1]"
    by (simp add: item_def)
  ultimately show ?thesis using example_iam_roles by simp
qed

lemma mset_sortDesc: "mset (sortDesc f xs) = mset xs"
  by (simp add: sortDesc_def)

lemma length_sortDesc: "length (sortDesc f xs) = length xs"
  by (simp add: sortDesc_def)

lemma mset_concat_map: "mset (concat (map f ps)) = sum_list (map (\<lambda>p. mset (f p)) ps)"
  by (induction ps) auto

lemma length_concat_map: "length (concat (map f ps)) = sum_list (map (\<lambda>p. length (f p)) ps)"
  by (induction ps) auto

lemma length_filter_concat_map:
  "length (filter P (concat (map f ps))) = sum_list (map (\<lambda>p. length (filter P (f p))) ps)"
  by (induction ps) auto

text \<open>
  Claim C5, without the removal of duplicates. Under the same condition on the pages,
  the collection a lister returns is the union of all pages as multisets, every item as
  often as the pages hold it, and its size is the sum of the page sizes; for the roles,
  the union and the sum are of the roles the filter keeps.
\<close>

theorem listers_accumulate_pages:
  "(paged (\<lambda>p. \<not> falsy (snd p)) ps1 \<and> serves (listFunctions lambda) t1 ps1 \<longrightarrow>
      (\<exists>fs t'. getAllFunctions lambda t1 = Some (Inr fs, t')
         \<and> mset fs = sum_list (map (\<lambda>p. mset (fst p)) ps1)
         \<and> length fs = sum_list (map (\<lambda>p. length (fst p)) ps1)))
   \<and> (paged (\<lambda>p. \<not> falsy (snd p)) ps2 \<and> serves (describeLogGroups cloudWatchLogs) t2 ps2 \<longrightarrow>
      (\<exists>gs t'. getAllLogGroups cloudWatchLogs t2 = Some (Inr gs, t')
         \<and> mset gs = sum_list (map (\<lambda>p. mset (fst p)) ps2)
         \<and> length gs = sum_list (map (\<lambda>p. length (fst p)) ps2)))
   \<and> (paged (\<lambda>p. \<not> falsy (snd p)) ps3 \<and> serves (getRestApis apiGateway) t3 ps3 \<longrightarrow>
      (\<exists>gs t'. getAllApiGateways apiGateway t3 = Some (Inr gs, t')
         \<and> mset gs = sum_list (map (\<lambda>p. mset (fst p)) ps3)
         \<and> length gs = sum_list (map (\<lambda>p. length (fst p)) ps3)))
   \<and> (listBuckets s3 t4 ListBuckets = Inr Buckets \<longrightarrow>
      (\<exists>bs t'. getAllBuckets s3 t4 = (Inr bs, t')
         \<and> mset bs = mset Buckets \<and> length bs = length Buckets))
   \<and> (paged fst ps5 \<and> serves (listDistributions cloudFront) t5 ps5 \<longrightarrow>
      (\<exists>ds t'. getAllCloudFrontDistributions cloudFront t5 = Some (Inr ds, t')
         \<and> mset ds = sum_list (map (\<lambda>p. mset (fst (snd p))) ps5)
         \<and> length ds = sum_list (map (\<lambda>p. length (fst (snd p))) ps5)))
   \<and> (paged (\<lambda>p. fst (snd p)) ps6 \<and> serves (listRoles iam) t6 ps6 \<longrightarrow>
      (\<exists>rs t'. getAllIAMRoles iam t6 = Some (Inr rs, t')
         \<and> mset rs = filter_mset user_role (sum_list (map (\<lambda>p. mset (snd (snd p))) ps6))
         \<and> length rs = sum_list (map (\<lambda>p. length (filter user_role (snd (snd p)))) ps6)))"
proof (intro conjI impI)
  assume "paged (\<lambda>p. \<not> falsy (snd p)) ps1 \<and> serves (listFunctions lambda) t1 ps1"
  then have "getAllFunctions lambda t1 =
           Some (Inr (sortDesc LastModified (concat (map fst ps1))),
                 t1 @ map (\<lambda>m. Call (ListFunctions m 10)) (None # map snd (butlast ps1)))"
    by (intro getAllFunctions_pages) auto
  then show "\<exists>fs t'. getAllFunctions lambda t1 = Some (Inr fs, t')
         \<and> mset fs = sum_list (map (\<lambda>p. mset (fst p)) ps1)
         \<and> length fs = sum_list (map (\<lambda>p. length (fst p)) ps1)"
    by (simp add: mset_sortDesc length_sortDesc mset_concat_map length_concat_map)
next
  assume "paged (\<lambda>p. \<not> falsy (snd p)) ps2 \<and> serves (describeLogGroups cloudWatchLogs) t2 ps2"
  then have "getAllLogGroups cloudWatchLogs t2 =
           Some (Inr (sortDesc creationTime (concat (map fst ps2))),
                 t2 @ map (\<lambda>m. Call (DescribeLogGroups ''/aws/'' 50 m)) (None # map snd (butlast ps2)))"
    by (intro getAllLogGroups_pages) auto
  then show "\<exists>gs t'. getAllLogGroups cloudWatchLogs t2 = Some (Inr gs, t')
         \<and> mset gs = sum_list (map (\<lambda>p. mset (fst p)) ps2)
         \<and> length gs = sum_list (map (\<lambda>p. length (fst p)) ps2)"
    by (simp add: mset_sortDesc length_sortDesc mset_concat_map length_concat_map)
next
  assume "paged (\<lambda>p. \<not> falsy (snd p)) ps3 \<and> serves (getRestApis apiGateway) t3 ps3"
  then have "getAllApiGateways apiGateway t3 =
           Some (Inr (sortDesc createdDate (concat (map fst ps3))),
                 t3 @ map (\<lambda>m. Call (GetRestApis m 10)) (None # map snd (butlast ps3)))"
    by (intro getAllApiGateways_pages) auto
  then show "\<exists>gs t'. getAllApiGateways apiGateway t3 = Some (Inr gs, t')
         \<and> mset gs = sum_list (map (\<lambda>p. mset (fst p)) ps3)
         \<and> length gs = sum_list (map (\<lambda>p. length (fst p)) ps3)"
    by (simp add: mset_sortDesc length_sortDesc mset_concat_map length_concat_map)
next
  assume "listBuckets s3 t4 ListBuckets = Inr Buckets"
  then have "getAllBuckets s3 t4 = (Inr (sortDesc CreationDate Buckets), t4 @ [Call ListBuckets])"
    by (rule getAllBuckets_page)
  then show "\<exists>bs t'. getAllBuckets s3 t4 = (Inr bs, t')
         \<and> mset bs = mset Buckets \<and> length bs = length Buckets"
    by (simp add: mset_sortDesc length_sortDesc)
next
  assume "paged fst ps5 \<and> serves (listDistributions cloudFront) t5 ps5"
  then have "getAllCloudFrontDistributions cloudFront t5 =
           Some (Inr (sortDesc LastModifiedTime (concat (map (\<lambda>p. fst (snd p)) ps5))),
                 t5 @ map (\<lambda>m. Call (ListDistributions m ''20''))
                       (None # map (\<lambda>p. snd (snd p)) (butlast ps5)))"
    by (intro getAllCloudFrontDistributions_pages) auto
  then show "\<exists>ds t'. getAllCloudFrontDistributions cloudFront t5 = Some (Inr ds, t')
         \<and> mset ds = sum_list (map (\<lambda>p. mset (fst (snd p))) ps5)
         \<and> length ds = sum_list (map (\<lambda>p. length (fst (snd p))) ps5)"
    by (simp add: mset_sortDesc length_sortDesc mset_concat_map length_concat_map)
next
  assume "paged (\<lambda>p. fst (snd p)) ps6 \<and> serves (listRoles iam) t6 ps6"
  then have "getAllIAMRoles iam t6 =
           Some (Inr (sortDesc CreateDate (filter user_role (concat (map (\<lambda>p. snd (snd p)) ps6)))),
                 t6 @ map (\<lambda>m. Call (ListRoles m 100)) (None # map fst (butlast ps6)))"
    by (intro getAllIAMRoles_pages) auto
  then show "\<exists>rs t'. getAllIAMRoles iam t6 = Some (Inr rs, t')
         \<and> mset rs = filter_mset user_role (sum_list (map (\<lambda>p. mset (snd (snd p))) ps6))
         \<and> length rs = sum_list (map (\<lambda>p. length (filter user_role (snd (snd p)))) ps6)"
    by (simp add: mset_sortDesc length_sortDesc length_filter_concat_map
          mset_concat_map[symmetric])
qed

theorem listers_accumulate_pages_witness:
  "(\<exists>fs t'. getAllFunctions example_lambda [] = Some (Inr fs, t')
       \<and> mset fs = mset [item ''a'' 1, item ''b'' 3] + mset [item ''c'' 2] \<and> length fs = 3)
   \<and> (\<exists>gs t'. getAllLogGroups example_cloudWatchLogs [] = Some (Inr gs, t')
       \<and> mset gs = mset [item ''/aws/lambda/a'' 1] + mset [item ''/aws/lambda/b'' 2]
       \<and> length gs = 2)
   \<and> (\<exists>gs t'. getAllApiGateways example_apiGateway [] = Some (Inr gs, t')
       \<and> mset gs = mset [item ''a'' 1] + mset [item ''b'' 2] \<and> length gs = 2)
   \<and> (\<exists>bs t'. getAllBuckets example_s3 [] = (Inr bs, t')
       \<and> mset bs = mset [item ''assets'' 1, item ''logs'' 2] \<and> length bs = 2)
   \<and> (\<exists>ds t'. getAllCloudFrontDistributions example_cloudFront [] = Some (Inr ds, t')
       \<and> mset ds = mset [item ''a'' 1] + mset [item ''b'' 2] \<and> length ds = 2)
   \<and> (\<exists>rs t'. getAllIAMRoles example_iam [] = Some (Inr rs, t')
       \<and> mset rs = mset [item ''app-role'' 1] + mset [item ''deploy-role'' 9] \<and> length rs = 2)"
proof -
  have s1: "serves (listFunctions example_lambda) []
              [([item ''a'' 1, item ''b'' 3], Some ''next''), ([item ''c'' 2], None)]"
    using replay_serves by (simp add: example_lambda_def)
  have s2: "serves (describeLogGroups example_cloudWatchLogs) []
              [([item ''/aws/lambda/a'' 1], Some ''next''), ([item ''/aws/lambda/b'' 2], None)]"
    using replay_serves by (simp add: example_cloudWatchLogs_def)
  have s3: "serves (getRestApis example_apiGateway) []
              [([item ''a'' 1], Some ''next''), ([item ''b'' 2], None)]"
    using replay_serves by (simp add: example_apiGateway_def)
  have s4: "listBuckets example_s3 [] ListBuckets = Inr [item ''assets'' 1, item ''logs'' 2]"
    by (simp add: example_s3_def replay_def)
  have s5: "serves (listDistributions example_cloudFront) []
              [(True, [item ''a'' 1], Some ''next''), (False, [item ''b'' 2], None)]"
    using replay_serves by (simp add: example_cloudFront_def)
  have s6: "serves (listRoles example_iam) []
              [(Some ''next'', True, [item ''AWSServiceRoleForSupport'' 5, item ''app-role'' 1]),
               (None, False, [item ''OrganizationAccountAccessRole'' 3, item ''deploy-role'' 9])]"
    using replay_serves by (simp add: example_iam_def)
  show ?thesis
    using listers_accumulate_pages[of
        "[([item ''a'' 1, item ''b'' 3], Some ''next''), ([item ''c'' 2], None)]" example_lambda "[]"
        "[([item ''/aws/lambda/a'' 1], Some ''next''), ([item ''/aws/lambda/b'' 2], None)]"
        example_cloudWatchLogs "[]"
        "[([item ''a'' 1], Some ''next''), ([item ''b'' 2], None)]" example_apiGateway "[]"
        example_s3 "[]" "[item ''assets'' 1, item ''logs'' 2]"
        "[(True, [item ''a'' 1], Some ''next''), (False, [item ''b'' 2], None)]" example_cloudFront "[]"
        "[(Some ''next'', True, [item ''AWSServiceRoleForSupport'' 5, item ''app-role'' 1]),
          (None, False, [item ''OrganizationAccountAccessRole'' 3, item ''deploy-role'' 9])]"
        example_iam "[]"]
      s1 s2 s3 s4 s5 s6
    by (simp add: paged_def falsy_def user_role_def startsWith_def item_fields
          numeral_2_eq_2 numeral_3_eq_3)
qed

text \<open>
  An item can appear twice in the result, against claim C5: when the provider returns
  the same page for the first call and for the call with the cursor, the function of
  that page is listed twice.
\<close>

theorem repeated_page_listed_twice:
  "getAllFunctions repeating_lambda [] =
     Some (Inr [item ''f'' 1, item ''f'' 1],
           [Call (ListFunctions None 10), Call (ListFunctions (Some ''again'') 10)])
   \<and> \<not> distinct [item ''f'' 1, item ''f'' 1]"
  by (simp add: getAllFunctions_def getAllFunctions_loop.simps repeating_lambda_def
        promise_def replay_def sortDesc_def falsy_def item_def)

subsection \<open>Termination of the pagination loops\<close>

text \<open>
  A loop need not return: while every answer carries a cursor, the function lister's
  loop goes on, and its value is \<open>None\<close>.
\<close>

lemma getAllFunctions_loop_never_returns:
  assumes "\<forall>t q. \<exists>Functions NextMarker.
             listFunctions lambda t q = Inr (Functions, NextMarker) \<and> \<not> falsy NextMarker"
  shows "getAllFunctions_loop lambda Marker acc t = None"
proof (rule ccontr)
  assume "getAllFunctions_loop lambda Marker acc t \<noteq> None"
  then obtain y where y: "getAllFunctions_loop lambda Marker acc t = Some y" by auto
  have "lambda = lambda \<longrightarrow> False"
  proof (rule getAllFunctions_loop.raw_induct[OF _ y, where P = "\<lambda>l M a t y. l = lambda \<longrightarrow> False"])
    fix self l M a t' y'
    assume ih: "\<And>l M a t y. self l M a t = Some y \<Longrightarrow> l = lambda \<longrightarrow> False"
      and step: "(case promise (listFunctions l) (ListFunctions M 10) t' of
          (Inl error, t') \<Rightarrow> Some (Inl error, t')
        | (Inr (Functions, NextMarker), t') \<Rightarrow>
            let functions = a @ Functions
            in if falsy NextMarker then Some (Inr functions, t')
               else self l NextMarker functions t') = Some y'"
    show "l = lambda \<longrightarrow> False"
    proof
      assume l: "l = lambda"
      obtain Functions NextMarker where
        r: "listFunctions lambda t' (ListFunctions M 10) = Inr (Functions, NextMarker)"
        and m: "\<not> falsy NextMarker"
        using assms by blast
      from step r m l
      have "self lambda NextMarker (a @ Functions) (t' @ [Call (ListFunctions M 10)]) = Some y'"
        by (simp add: promise_def Let_def)
      from ih[OF this] show False by simp
    qed
  qed
  then show False by simp
qed

text \<open>
  Claim C10. Let the provider answer the successive listing calls of a loop with
  \<open>rs 0\<close>, \<open>rs 1\<close>, ... If some answer carries no continuation signal (no next cursor
  for functions, log groups and API gateways; a false truncation flag for distributions
  and roles; an empty or untruncated page of objects for a bucket; or an error), then the
  lister returns, and so do the loop that empties a bucket and the loop body it is in.
\<close>

theorem pagination_loops_return:
  "(answers (listFunctions lambda) t1 rs1 \<and> (\<exists>n. no_cursor (rs1 n)) \<longrightarrow>
      (\<exists>res. getAllFunctions lambda t1 = Some res))
   \<and> (answers (describeLogGroups cloudWatchLogs) t2 rs2 \<and> (\<exists>n. no_cursor (rs2 n)) \<longrightarrow>
      (\<exists>res. getAllLogGroups cloudWatchLogs t2 = Some res))
   \<and> (answers (getRestApis apiGateway) t3 rs3 \<and> (\<exists>n. no_cursor (rs3 n)) \<longrightarrow>
      (\<exists>res. getAllApiGateways apiGateway t3 = Some res))
   \<and> (answers (listDistributions cloudFront) t4 rs4 \<and> (\<exists>n. distributions_end (rs4 n)) \<longrightarrow>
      (\<exists>res. getAllCloudFrontDistributions cloudFront t4 = Some res))
   \<and> (answers (listRoles iam) t5 rs5 \<and> (\<exists>n. roles_end (rs5 n)) \<longrightarrow>
      (\<exists>res. getAllIAMRoles iam t5 = Some res))
   \<and> (answers_objects s3 t6 rs6 \<and> (\<exists>n. objects_end (rs6 n)) \<longrightarrow>
      (\<exists>res. bucket_while s3 Bucket Marker t6 = Some res)
      \<and> (\<exists>res. bucket_item s3 r t6 = Some res))"
proof (intro conjI impI)
  assume "answers (listFunctions lambda) t1 rs1 \<and> (\<exists>n. no_cursor (rs1 n))"
  then obtain res where "getAllFunctions_loop lambda None [] t1 = Some res"
    using getAllFunctions_loop_returns by blast
  then show "\<exists>res. getAllFunctions lambda t1 = Some res"
    by (auto simp: getAllFunctions_def split: prod.splits sum.splits)
next
  assume "answers (describeLogGroups cloudWatchLogs) t2 rs2 \<and> (\<exists>n. no_cursor (rs2 n))"
  then obtain res where "getAllLogGroups_loop cloudWatchLogs None [] t2 = Some res"
    using getAllLogGroups_loop_returns by blast
  then show "\<exists>res. getAllLogGroups cloudWatchLogs t2 = Some res"
    by (auto simp: getAllLogGroups_def split: prod.splits sum.splits)
next
  assume "answers (getRestApis apiGateway) t3 rs3 \<and> (\<exists>n. no_cursor (rs3 n))"
  then obtain res where "getAllApiGateways_loop apiGateway None [] t3 = Some res"
    using getAllApiGateways_loop_returns by blast
  then show "\<exists>res. getAllApiGateways apiGateway t3 = Some res"
    by (auto simp: getAllApiGateways_def split: prod.splits sum.splits)
next
  assume "answers (listDistributions cloudFront) t4 rs4 \<and> (\<exists>n. distributions_end (rs4 n))"
  then obtain res where "getAllCloudFrontDistributions_loop cloudFront None [] t4 = Some res"
    using getAllCloudFrontDistributions_loop_returns by blast
  then show "\<exists>res. getAllCloudFrontDistributions cloudFront t4 = Some res"
    by (auto simp: getAllCloudFrontDistributions_def split: prod.splits sum.splits)
next
  assume "answers (listRoles iam) t5 rs5 \<and> (\<exists>n. roles_end (rs5 n))"
  then obtain res where "getAllIAMRoles_loop iam None [] t5 = Some res"
    using getAllIAMRoles_loop_returns by blast
  then show "\<exists>res. getAllIAMRoles iam t5 = Some res"
    by (auto simp: getAllIAMRoles_def split: prod.splits sum.splits)
next
  assume a: "answers_objects s3 t6 rs6 \<and> (\<exists>n. objects_end (rs6 n))"
  then show "\<exists>res. bucket_while s3 Bucket Marker t6 = Some res"
    using bucket_while_returns by blast
next
  assume a: "answers_objects s3 t6 rs6 \<and> (\<exists>n. objects_end (rs6 n))"
  then obtain res where "bucket_while s3 (Name r) None t6 = Some res"
    using bucket_while_returns by blast
  then show "\<exists>res. bucket_item s3 r t6 = Some res"
    by (auto simp: bucket_item_def Let_def split: prod.splits sum.splits)
qed

theorem pagination_loops_return_witness:
  "(\<exists>res. getAllFunctions example_lambda [] = Some res)
   \<and> (\<exists>res. getAllLogGroups example_cloudWatchLogs [] = Some res)
   \<and> (\<exists>res. getAllApiGateways example_apiGateway [] = Some res)
   \<and> (\<exists>res. getAllCloudFrontDistributions example_cloudFront [] = Some res)
   \<and> (\<exists>res. getAllIAMRoles example_iam [] = Some res)
   \<and> (\<exists>res. bucket_while example_s3 ''assets'' None [] = Some res)
   \<and> (\<exists>res. bucket_item example_s3 (item ''assets'' 1) [] = Some res)"
proof -
  let ?err = "Inl (AWSError ''ServiceUnavailable'' ''no more answers'')"
  let ?ps1 = "[([item ''a'' 1, item ''b'' 3], Some ''next''), ([item ''c'' 2], None)]"
  let ?ps2 = "[([item ''/aws/lambda/a'' 1], Some ''next''), ([item ''/aws/lambda/b'' 2], None)]"
  let ?ps3 = "[([item ''a'' 1], Some ''next''), ([item ''b'' 2], None)]"
  let ?ps4 = "[(True, [item ''a'' 1], Some ''next''), (False, [item ''b'' 2], None)]"
  let ?ps5 = "[(Some ''next'', True, [item ''AWSServiceRoleForSupport'' 5, item ''app-role'' 1]),
               (None, False, [item ''OrganizationAccountAccessRole'' 3, item ''deploy-role'' 9])]"
  let ?ps6 = "[([\<lparr>Key = ''k1''\<rparr>, \<lparr>Key = ''k2''\<rparr>], True), ([\<lparr>Key = ''k3''\<rparr>], False)]"
  have a1: "answers (listFunctions example_lambda) [] (\<lambda>k. if k < length ?ps1 then Inr (?ps1 ! k) else ?err)"
    using replay_answers[of ?ps1] by (simp add: example_lambda_def)
  have a2: "answers (describeLogGroups example_cloudWatchLogs) []
              (\<lambda>k. if k < length ?ps2 then Inr (?ps2 ! k) else ?err)"
    using replay_answers[of ?ps2] by (simp add: example_cloudWatchLogs_def)
  have a3: "answers (getRestApis example_apiGateway) [] (\<lambda>k. if k < length ?ps3 then Inr (?ps3 ! k) else ?err)"
    using replay_answers[of ?ps3] by (simp add: example_apiGateway_def)
  have a4: "answers (listDistributions example_cloudFront) []
              (\<lambda>k. if k < length ?ps4 then Inr (?ps4 ! k) else ?err)"
    using replay_answers[of ?ps4] by (simp add: example_cloudFront_def)
  have a5: "answers (listRoles example_iam) [] (\<lambda>k. if k < length ?ps5 then Inr (?ps5 ! k) else ?err)"
    using replay_answers[of ?ps5] by (simp add: example_iam_def)
  have a6: "answers_objects example_s3 [] (\<lambda>k. if k < length ?ps6 then Inr (?ps6 ! k) else ?err)"
    by (simp add: answers_objects_def example_s3_def replay_objects_def)
  have e1: "\<exists>n. no_cursor (if n < length ?ps1 then Inr (?ps1 ! n) else ?err)"
    by (rule exI[of _ 1]) (simp add: no_cursor_def falsy_def)
  have e2: "\<exists>n. no_cursor (if n < length ?ps2 then Inr (?ps2 ! n) else ?err)"
    by (rule exI[of _ 1]) (simp add: no_cursor_def falsy_def)
  have e3: "\<exists>n. no_cursor (if n < length ?ps3 then Inr (?ps3 ! n) else ?err)"
    by (rule exI[of _ 1]) (simp add: no_cursor_def falsy_def)
  have e4: "\<exists>n. distributions_end (if n < length ?ps4 then Inr (?ps4 ! n) else ?err)"
    by (rule exI[of _ 1]) (simp add: distributions_end_def)
  have e5: "\<exists>n. roles_end (if n < length ?ps5 then Inr (?ps5 ! n) else ?err)"
    by (rule exI[of _ 1]) (simp add: roles_end_def)
  have e6: "\<exists>n. objects_end (if n < length ?ps6 then Inr (?ps6 ! n) else ?err)"
    by (rule exI[of _ 1]) (simp add: objects_end_def)
  show ?thesis
    using pagination_loops_return[of example_lambda "[]" _ example_cloudWatchLogs "[]" _
        example_apiGateway "[]" _ example_cloudFront "[]" _ example_iam "[]" _
        example_s3 "[]" _ "''assets''" None "item ''assets'' 1"]
      a1 a2 a3 a4 a5 a6 e1 e2 e3 e4 e5 e6
    by blast
qed

end
